theory Spec2Isabelle
  imports Main "HOL-Library.Sublist" "HOL-Library.AList"
begin

section \<open>Python strings\<close>

text \<open>
  A Python \<^verbatim>\<open>str\<close> is modelled as a HOL \<^typ>\<open>string\<close>: one \<^typ>\<open>char\<close> stands for one code
  point below 256. The built-in string operations used by \<^verbatim>\<open>app.py\<close> are written out for
  that range; none of them raises on a \<^verbatim>\<open>str\<close> argument, except \<^verbatim>\<open>int\<close>, whose
  \<^verbatim>\<open>ValueError\<close> is the value \<^term>\<open>None\<close>.
\<close>

text \<open>\<^verbatim>\<open>str.isspace\<close> on one code point below 256: TAB..CR, FS..US, SPACE, NEL, NBSP.\<close>

definition isspace :: "char \<Rightarrow> bool" where
  "isspace c = (let n = (of_char c :: nat) in
     (9 \<le> n \<and> n \<le> 13) \<or> (28 \<le> n \<and> n \<le> 32) \<or> n = 133 \<or> n = 160)"

text \<open>\<^verbatim>\<open>s.strip()\<close>: leading and trailing whitespace removed.\<close>

definition strip :: "string \<Rightarrow> string" where
  "strip s = rev (dropWhile isspace (rev (dropWhile isspace s)))"

text \<open>\<^verbatim>\<open>s.startswith(p)\<close>.\<close>

definition startswith :: "string \<Rightarrow> string \<Rightarrow> bool" where
  "startswith s p = prefix p s"

text \<open>
  \<^verbatim>\<open>s.replace(old, new)\<close> for a non-empty \<^verbatim>\<open>old\<close>: every non-overlapping occurrence,
  scanning from the left. (The program only calls it with the four non-empty labels.)
\<close>

fun replace :: "string \<Rightarrow> string \<Rightarrow> string \<Rightarrow> string" where
  "replace old new [] = []"
| "replace old new (c # cs) =
     (if old \<noteq> [] \<and> prefix old (c # cs)
      then new @ replace old new (drop (length old) (c # cs))
      else c # replace old new cs)"

text \<open>
  \<^verbatim>\<open>s.split(sep)\<close> for a one-character separator: the pieces between the separators,
  empty pieces kept, so the result is never empty (\<^verbatim>\<open>''.split(',') == ['']\<close>).
\<close>

fun split_py :: "char \<Rightarrow> string \<Rightarrow> string list" where
  "split_py sep [] = [[]]"
| "split_py sep (c # cs) =
     (if c = sep then [] # split_py sep cs
      else (case split_py sep cs of
              [] \<Rightarrow> [[c]]
            | w # ws \<Rightarrow> (c # w) # ws))"

text \<open>
  \<^verbatim>\<open>s.split()\<close> without argument: the maximal runs of non-whitespace characters. The
  first argument is the word being read, in reverse.
\<close>

fun split_ws :: "string \<Rightarrow> string \<Rightarrow> string list" where
  "split_ws w [] = (if w = [] then [] else [rev w])"
| "split_ws w (c # cs) =
     (if isspace c then (if w = [] then split_ws [] cs else rev w # split_ws [] cs)
      else split_ws (c # w) cs)"

text \<open>
  \<^verbatim>\<open>int(s)\<close> on a \<^verbatim>\<open>str\<close>, base 10: optional surrounding whitespace, an optional sign,
  then decimal digits, where single underscores may stand between two digits. Below 256
  the only decimal digits are \<^verbatim>\<open>0\<close>..\<^verbatim>\<open>9\<close>. The whitespace \<^verbatim>\<open>int\<close> skips is TAB..CR and
  SPACE, and the non-ASCII whitespace NEL and NBSP (which CPython first maps to a space);
  FS..US are not skipped. \<^term>\<open>None\<close> is \<^verbatim>\<open>ValueError\<close>. (Recent CPython versions also refuse
  a text of more than 4300 digits; a response of at most 500 tokens does not get there, and
  the limit is left out.)
\<close>

definition isdigit :: "char \<Rightarrow> bool" where
  "isdigit c = (48 \<le> (of_char c :: nat) \<and> (of_char c :: nat) \<le> 57)"

definition digit_val :: "char \<Rightarrow> nat" where
  "digit_val c = (of_char c :: nat) - 48"

fun parse_digits :: "nat \<Rightarrow> string \<Rightarrow> nat option" where
  "parse_digits acc [] = Some acc"
| "parse_digits acc (c # cs) =
     (if isdigit c then parse_digits (10 * acc + digit_val c) cs
      else if c = CHR ''_'' then
        (case cs of
           [] \<Rightarrow> None
         | d # ds \<Rightarrow> if isdigit d then parse_digits (10 * acc + digit_val d) ds else None)
      else None)"

definition parse_unsigned :: "string \<Rightarrow> nat option" where
  "parse_unsigned s =
     (case s of
        [] \<Rightarrow> None
      | c # cs \<Rightarrow> if isdigit c then parse_digits (digit_val c) cs else None)"

definition int_space :: "char \<Rightarrow> bool" where
  "int_space c = (let n = (of_char c :: nat) in
     (9 \<le> n \<and> n \<le> 13) \<or> n = 32 \<or> n = 133 \<or> n = 160)"

definition int_py :: "string \<Rightarrow> int option" where
  "int_py s =
     (case rev (dropWhile int_space (rev (dropWhile int_space s))) of
        [] \<Rightarrow> None
      | c # cs \<Rightarrow>
          if c = CHR ''-'' then map_option (\<lambda>n. - int n) (parse_unsigned cs)
          else if c = CHR ''+'' then map_option int (parse_unsigned cs)
          else map_option int (parse_unsigned (c # cs)))"

text \<open>\<^verbatim>\<open>random.randint(a, b)\<close> for \<^verbatim>\<open>a <= b\<close>: the draw \<open>r\<close> of the generator is an
  explicit argument; every integer of \<open>[a, b]\<close> is the result for some draw.\<close>

definition randint :: "int \<Rightarrow> int \<Rightarrow> nat \<Rightarrow> int" where
  "randint a b r = a + int (r mod nat (b - a + 1))"

text \<open>\<^verbatim>\<open>random.choice(seq)\<close> for a non-empty sequence; on an empty one Python raises
  \<^verbatim>\<open>IndexError\<close>, here \<^term>\<open>None\<close>.\<close>

definition choice :: "'a list \<Rightarrow> nat \<Rightarrow> 'a option" where
  "choice xs r = (if xs = [] then None else Some (xs ! (r mod length xs)))"

section \<open>The question bank\<close>

record question_entry =
  id_q :: int
  category :: string
  question :: string
  keywords_q :: "string list"
  ideal_length :: string
  difficulty :: string
  demo_transcripts :: "string list"

text \<open>The module constant \<^verbatim>\<open>QUESTIONS\<close>, entry by entry.\<close>

definition question_1 :: question_entry where
  "question_1 =
     \<lparr> id_q = 1,
       category = ''Data Structures'',
       question = ''Explain the difference between an array and a linked list.'',
       keywords_q = [''array'', ''linked list'', ''memory allocation'', ''access time'', ''insertion'', ''deletion''],
       ideal_length = ''250-500 words'',
       difficulty = ''Medium'',
       demo_transcripts =
         [''Arrays and linked lists are both linear data structures but differ significantly in memory allocation. Arrays use contiguous memory blocks, allowing O(1) access time but making insertions/deletions expensive at O(n). Linked lists use non-contiguous memory with pointers, providing O(1) insertions/deletions but O(n) access time. Arrays have fixed size while linked lists are dynamic.'',
          ''The key difference lies in memory organization. Arrays allocate contiguous memory, making cache utilization efficient but resizing costly. Linked lists use scattered memory with nodes containing data and next pointers, enabling efficient insertions but poor cache locality. Arrays support random access; linked lists require sequential traversal.''] \<rparr>"

definition question_2 :: question_entry where
  "question_2 =
     \<lparr> id_q = 2,
       category = ''Algorithms'',
       question = ''What is the time complexity of binary search and how does it work?'',
       keywords_q = [''binary search'', ''time complexity'', ''O(log n)'', ''sorted array'', ''divide and conquer''],
       ideal_length = ''100-200 words'',
       difficulty = ''Easy'',
       demo_transcripts =
         [''Binary search has O(log n) time complexity. It works by repeatedly dividing a sorted array in half. You start with the middle element - if it matches the target, you're done. If the target is smaller, search the left half; if larger, search the right half. Continue until found or the search space is empty. It requires the array to be sorted.'',
          ''Binary search operates in O(log n) time. The algorithm compares the target value to the middle element of a sorted array. Based on comparison, it eliminates half of the remaining elements. This divide-and-conquer approach dramatically reduces search time compared to linear search's O(n).''] \<rparr>"

definition question_3 :: question_entry where
  "question_3 =
     \<lparr> id_q = 3,
       category = ''System Design'',
       question = ''How would you design a URL shortening service like bit.ly?'',
       keywords_q = [''hash function'', ''database'', ''scalability'', ''cache'', ''redirect'', ''unique ID''],
       ideal_length = ''300-500 words'',
       difficulty = ''Hard'',
       demo_transcripts =
         [''A URL shortener needs several components: a unique ID generator using hash functions like Base62, a database to map short codes to original URLs, a caching layer like Redis for frequent URLs, and a redirect service. The system must handle high traffic, ensure collision-free hashing, and provide analytics. Considerations include scalability, cache invalidation, and monitoring.'',
          ''Key components include: 1) Encoding service that converts long URLs to short codes using hash algorithms, 2) Database storage for mappings, 3) Cache for popular URLs, 4) Redirect service with 301/302 responses, 5) Analytics tracking. Design considerations: load balancing, database sharding, CDN usage, and rate limiting.''] \<rparr>"

definition question_4 :: question_entry where
  "question_4 =
     \<lparr> id_q = 4,
       category = ''Algorithms'',
       question = ''Explain how a hash table works and its time complexity.'',
       keywords_q = [''hash function'', ''collision'', ''bucket'', ''load factor'', ''O(1)'', ''chaining''],
       ideal_length = ''150-300 words'',
       difficulty = ''Medium'',
       demo_transcripts =
         [''Hash tables map keys to values using a hash function that converts keys to array indices. They offer average O(1) time for insert, delete, and search operations. Collisions occur when different keys hash to the same index, resolved via chaining (linked lists) or open addressing. Load factor triggers resizing to maintain efficiency.'',
          ''A hash table uses a hash function to compute an index into an array of buckets. Ideally, this provides O(1) average-case complexity. Collision resolution methods include separate chaining and open addressing. Performance degrades with high load factor, requiring rehashing. Good hash functions distribute keys uniformly.''] \<rparr>"

definition question_5 :: question_entry where
  "question_5 =
     \<lparr> id_q = 5,
       category = ''Data Structures'',
       question = ''What are the differences between a stack and a queue?'',
       keywords_q = [''LIFO'', ''FIFO'', ''operations'', ''use cases'', ''implementation''],
       ideal_length = ''100-200 words'',
       difficulty = ''Easy'',
       demo_transcripts =
         [''Stacks follow LIFO (Last-In-First-Out) with push/pop operations, used for function calls, undo operations, and parsing. Queues follow FIFO (First-In-First-Out) with enqueue/dequeue operations, used for task scheduling, BFS, and messaging systems. Both can be implemented using arrays or linked lists with different access patterns.'',
          ''Key difference: access order. Stack is LIFO - last element added is first removed. Queue is FIFO - first element added is first removed. Common stack operations: push, pop, peek. Queue operations: enqueue, dequeue, front. Stacks for recursion/backtracking, queues for breadth-first processing.''] \<rparr>"

definition question_6 :: question_entry where
  "question_6 =
     \<lparr> id_q = 6,
       category = ''System Design'',
       question = ''Describe how you would design a simple chat application.'',
       keywords_q = [''real-time'', ''websockets'', ''database'', ''scalability'', ''message queue'', ''authentication''],
       ideal_length = ''250-400 words'',
       difficulty = ''Hard'',
       demo_transcripts =
         [''A chat app requires: 1) WebSocket connections for real-time communication, 2) Message broker for distribution, 3) Database for message persistence, 4) Authentication service, 5) Notification service for offline users. Design considerations: connection management, message ordering, read receipts, typing indicators, and media handling.'',
          ''Core components include: client-server WebSocket connections, message queue (Kafka/RabbitMQ) for decoupling, database (SQL for users, NoSQL for messages), caching for active sessions, and push notification service. Must handle concurrent connections, message delivery guarantees, and presence tracking.''] \<rparr>"

definition question_7 :: question_entry where
  "question_7 =
     \<lparr> id_q = 7,
       category = ''Behavioral'',
       question = ''Tell me about a challenging project you worked on and how you overcame obstacles.'',
       keywords_q = [''challenge'', ''solution'', ''teamwork'', ''learning'', ''results''],
       ideal_length = ''200-350 words'',
       difficulty = ''Medium'',
       demo_transcripts =
         [''I worked on a legacy system migration with tight deadlines. Challenges included undocumented APIs and team knowledge gaps. I overcame this by creating detailed documentation, pairing with senior engineers, and implementing incremental migration with feature flags. The project completed on time with zero downtime.'',
          ''The most challenging project involved optimizing database queries that were causing performance issues. I systematically analyzed query patterns, implementing indexing strategies, introduced caching, and refactored inefficient joins. Through careful monitoring and A/B testing, we achieved 70% performance improvement.''] \<rparr>"

definition question_8 :: question_entry where
  "question_8 =
     \<lparr> id_q = 8,
       category = ''Algorithms'',
       question = ''What is dynamic programming and when would you use it?'',
       keywords_q = [''memoization'', ''optimal substructure'', ''overlapping subproblems'', ''Fibonacci'', ''examples''],
       ideal_length = ''150-250 words'',
       difficulty = ''Medium'',
       demo_transcripts =
         [''Dynamic programming solves complex problems by breaking them into overlapping subproblems and storing solutions to avoid recomputation. It applies when problems have optimal substructure and overlapping subproblems. Examples: Fibonacci sequence, knapsack problem, shortest path algorithms. Techniques include memoization (top-down) and tabulation (bottom-up).'',
          ''DP optimizes recursive solutions by caching intermediate results. Use it for problems where the same subproblems recur, like calculating Fibonacci numbers or finding the longest common subsequence. The key insight is trading space for time by storing computed results in a table or dictionary.''] \<rparr>"

definition question_9 :: question_entry where
  "question_9 =
     \<lparr> id_q = 9,
       category = ''Data Structures'',
       question = ''Compare and contrast B-trees and binary search trees.'',
       keywords_q = [''balanced'', ''height'', ''disk access'', ''database indexing'', ''nodes'', ''children''],
       ideal_length = ''150-250 words'',
       difficulty = ''Hard'',
       demo_transcripts =
         [''B-trees are balanced m-way trees optimized for disk access, with nodes containing multiple keys and children. Binary search trees are binary trees with at most two children per node. B-trees minimize disk I/O by having larger node sizes matching disk blocks, while BSTs are memory-optimized. B-trees auto-balance, BSTs may become unbalanced.'',
          ''Key differences: B-trees have multiple keys per node and maintain balance automatically, making them ideal for databases and file systems. BSTs have one key per node and can degrade to O(n) if unbalanced. B-trees have lower height, reducing disk accesses for large datasets stored externally.''] \<rparr>"

definition question_10 :: question_entry where
  "question_10 =
     \<lparr> id_q = 10,
       category = ''Behavioral'',
       question = ''How do you handle conflicts when working in a team?'',
       keywords_q = [''communication'', ''compromise'', ''perspective'', ''resolution'', ''professionalism''],
       ideal_length = ''150-250 words'',
       difficulty = ''Medium'',
       demo_transcripts =
         [''I handle conflicts through open communication, focusing on issues not people. First, I listen to understand all perspectives. Then, I facilitate discussion to find common ground, proposing data-driven solutions. If needed, I escalate to a manager. The goal is constructive resolution that strengthens the team, not winning arguments.'',
          ''My approach: 1) Address issues early before escalation, 2) Focus on facts and project goals, 3) Seek compromise through brainstorming alternatives, 4) Document agreements, 5) Follow up to ensure resolution. I believe diverse perspectives strengthen outcomes when managed constructively.''] \<rparr>"

definition QUESTIONS :: "question_entry list" where
  "QUESTIONS = [question_1, question_2, question_3, question_4, question_5, question_6, question_7, question_8, question_9, question_10]"

section \<open>Evaluation\<close>

text \<open>The dictionary \<^verbatim>\<open>{"score", "strengths", "improvements", "feedback"}\<close> that both
  evaluation paths return.\<close>

record evaluation =
  score :: int
  strengths :: "string list"
  improvements :: "string list"
  feedback :: string

text \<open>\<^verbatim>\<open>get_demo_feedback(question)\<close>; \<open>r\<close> is the draw behind \<^verbatim>\<open>random.randint\<close>.\<close>

definition get_demo_feedback :: "question_entry \<Rightarrow> nat \<Rightarrow> evaluation" where
  "get_demo_feedback q r =
     (let base_score =
            (if difficulty q = ''Easy'' then randint 70 90 r
             else if difficulty q = ''Medium'' then randint 60 80 r
             else randint 50 70 r);
          fb =
            (if category q = ''Data Structures'' then
               ''Your understanding of data structures is basic. To improve, provide more specific examples and discuss time/space complexities.''
             else if category q = ''Algorithms'' then
               ''You explained the concept but need more detail. Add complexity analysis and implementation details.''
             else if category q = ''System Design'' then
               ''Good high-level thinking. Add more specific components, technologies, and scalability considerations.''
             else if category q = ''Behavioral'' then
               ''Good personal example. Use the STAR method more clearly and add specific outcomes/metrics.''
             else
               ''Good attempt. Add more technical details and real-world applications.'')
      in \<lparr> score = base_score,
           strengths = [''Clear explanation'', ''Good structure''],
           improvements = [''Add more examples'', ''Be more concise''],
           feedback = fb \<rparr>)"

text \<open>
  The body of the \<^verbatim>\<open>for line in lines\<close> loop of \<^verbatim>\<open>evaluate_with_gpt\<close>: one labelled line
  updates one field of \<^verbatim>\<open>result\<close>. The \<^verbatim>\<open>try\<close>/\<^verbatim>\<open>except\<close> around \<^verbatim>\<open>int(score_text)\<close> is the
  case distinction on \<^term>\<open>int_py\<close>.
\<close>

definition parse_line :: "evaluation \<Rightarrow> string \<Rightarrow> evaluation" where
  "parse_line result raw =
     (let line = strip raw in
      if startswith line ''SCORE:'' then
        (case int_py (strip (replace ''SCORE:'' [] line)) of
           Some n \<Rightarrow> result\<lparr>score := n\<rparr>
         | None \<Rightarrow> result\<lparr>score := 50\<rparr>)
      else if startswith line ''STRENGTHS:'' then
        result\<lparr>strengths :=
          map strip (filter (\<lambda>s. strip s \<noteq> [])
            (split_py CHR '','' (strip (replace ''STRENGTHS:'' [] line))))\<rparr>
      else if startswith line ''IMPROVEMENTS:'' then
        result\<lparr>improvements :=
          map strip (filter (\<lambda>i. strip i \<noteq> [])
            (split_py CHR '','' (strip (replace ''IMPROVEMENTS:'' [] line))))\<rparr>
      else if startswith line ''FEEDBACK:'' then
        result\<lparr>feedback := strip (replace ''FEEDBACK:'' [] line)\<rparr>
      else result)"

text \<open>Lines 545--580 of \<^verbatim>\<open>evaluate_with_gpt\<close>: from the response text to the returned
  dictionary.\<close>

definition parse_response :: "string \<Rightarrow> evaluation" where
  "parse_response response_text =
     (let result0 = \<lparr> score = 50, strengths = [], improvements = [], feedback = [] \<rparr>;
          result1 = foldl parse_line result0 (split_py (CHR 0x0A) response_text);
          result2 = (if strengths result1 = []
                     then result1\<lparr>strengths := [''Clear communication'', ''Good attempt'']\<rparr>
                     else result1);
          result3 = (if improvements result2 = []
                     then result2\<lparr>improvements := [''Add more technical details'', ''Be more specific'']\<rparr>
                     else result2)
      in (if feedback result3 = []
          then result3\<lparr>feedback := ''Good effort. Consider providing more specific technical details and examples to improve your answer.''\<rparr>
          else result3))"

text \<open>
  What the call of the chat-completion service and the read of
  \<^verbatim>\<open>response.choices[0].message.content\<close> come to: an exception with its message
  \<^verbatim>\<open>str(e)\<close>, or the content, which the client library types as an optional string.
\<close>

datatype completion = Raises string | Content "string option"

text \<open>
  \<^verbatim>\<open>evaluate_with_gpt(question, answer)\<close>. The session flag \<^verbatim>\<open>api_configured\<close>, the
  outcome of the service call and the random draw are arguments; the result is the list of
  messages given to \<^verbatim>\<open>st.error\<close> and the returned dictionary. The prompt is built from the
  question and the answer and only sent to the service, whose outcome is quantified over.
  A \<^verbatim>\<open>None\<close> content raises \<^verbatim>\<open>AttributeError\<close> at \<^verbatim>\<open>response_text.split\<close>, inside the
  \<^verbatim>\<open>try\<close>.
\<close>

definition evaluate_with_gpt ::
  "bool \<Rightarrow> completion \<Rightarrow> nat \<Rightarrow> question_entry \<Rightarrow> string \<Rightarrow> string list \<times> evaluation" where
  "evaluate_with_gpt configured outcome r q answer =
     (if \<not> configured then ([], get_demo_feedback q r)
      else
        (case outcome of
           Content (Some response_text) \<Rightarrow> ([], parse_response response_text)
         | Content None \<Rightarrow>
             ([''GPT Evaluation error: '' @ take 100
                (CHR 0x27 # ''NoneType'' @ CHR 0x27 # '' object has no attribute '' @
                 CHR 0x27 # ''split'' @ [CHR 0x27])],
              get_demo_feedback q r)
         | Raises e \<Rightarrow>
             ([''GPT Evaluation error: '' @ take 100 e], get_demo_feedback q r)))"

section \<open>Transcription\<close>

text \<open>
  \<^verbatim>\<open>get_question_demo_transcript(question_id)\<close>: the \<^verbatim>\<open>for q in QUESTIONS\<close> loop over a bank
  \<open>qs\<close>. An entry with the id and an empty transcript list whose category is none of the
  four returns nothing, so the loop goes on. The argument is \<^term>\<open>None\<close> for Python's
  \<^verbatim>\<open>None\<close>, which equals no id. \<open>r\<close> is the draw behind \<^verbatim>\<open>random.choice\<close>.
\<close>

fun demo_transcript_in :: "question_entry list \<Rightarrow> int option \<Rightarrow> nat \<Rightarrow> string" where
  "demo_transcript_in [] question_id r =
     ''This is a demo transcript for a technical interview question.''"
| "demo_transcript_in (q # qs) question_id r =
     (if Some (id_q q) = question_id then
        (case choice (demo_transcripts q) r of
           Some t \<Rightarrow> t
         | None \<Rightarrow>
            (if category q = ''Data Structures'' then
               ''Data structures organize and store data efficiently. Different structures optimize for different operations like access, insertion, or deletion.''
             else if category q = ''Algorithms'' then
               ''Algorithms are step-by-step procedures for solving problems. Time and space complexity analysis helps compare algorithm efficiency.''
             else if category q = ''System Design'' then
               ''System design involves creating scalable, reliable architectures. Key considerations include load balancing, caching, database choice, and fault tolerance.''
             else if category q = ''Behavioral'' then
               ''Behavioral questions assess soft skills and experience. Use the STAR method (Situation, Task, Action, Result) to structure responses.''
             else demo_transcript_in qs question_id r))
      else demo_transcript_in qs question_id r)"

definition get_question_demo_transcript :: "int option \<Rightarrow> nat \<Rightarrow> string" where
  "get_question_demo_transcript question_id r = demo_transcript_in QUESTIONS question_id r"

text \<open>The dictionary \<^verbatim>\<open>eval_data\<close> of \<^verbatim>\<open>show_practice\<close>; its key \<^verbatim>\<open>'feedback'\<close> holds the
  dictionary returned by the evaluation.\<close>

record eval_data =
  overall_score :: int
  word_count :: nat
  feedback_dict :: evaluation

text \<open>The values kept in \<^verbatim>\<open>st.session_state\<close>; \<^term>\<open>AudioVal\<close> is a recording (an uploaded
  file object) with its bytes.\<close>

datatype ss_value =
    NoneVal
  | BoolVal bool
  | IntVal int
  | StrVal string
  | AudioVal string
  | EvalVal eval_data

text \<open>Python's truth value of such a value. A file object and a non-empty dictionary
  are true.\<close>

fun truthy :: "ss_value \<Rightarrow> bool" where
  "truthy NoneVal = False"
| "truthy (BoolVal b) = b"
| "truthy (IntVal n) = (n \<noteq> 0)"
| "truthy (StrVal s) = (s \<noteq> [])"
| "truthy (AudioVal a) = True"
| "truthy (EvalVal e) = True"

text \<open>\<^verbatim>\<open>get_audio_bytes(audio_data)\<close>.\<close>

fun get_audio_bytes :: "ss_value \<Rightarrow> string option" where
  "get_audio_bytes (AudioVal a) = Some a"
| "get_audio_bytes v = None"

text \<open>
  What the \<^verbatim>\<open>try\<close> body of \<^verbatim>\<open>transcribe_audio\<close> comes to once the audio bytes are there
  (temporary file, service call, \<^verbatim>\<open>os.unlink\<close>, \<^verbatim>\<open>transcript.text\<close>): an exception with
  its message, or the text.
\<close>

datatype transcription = TranscriptionRaises string | TranscriptionText string

text \<open>Python's \<^verbatim>\<open>if question_id:\<close> on an optional integer.\<close>

definition id_given :: "int option \<Rightarrow> bool" where
  "id_given question_id = (case question_id of None \<Rightarrow> False | Some n \<Rightarrow> n \<noteq> 0)"

text \<open>
  \<^verbatim>\<open>transcribe_audio(audio_data, question_id=None)\<close> over a bank \<open>qs\<close>: the messages given to
  \<^verbatim>\<open>st.error\<close> and the returned text. Audio without bytes raises \<^verbatim>\<open>ValueError\<close> inside the
  \<^verbatim>\<open>try\<close>.
\<close>

definition transcribe_audio_in ::
  "question_entry list \<Rightarrow> bool \<Rightarrow> transcription \<Rightarrow> nat \<Rightarrow> ss_value \<Rightarrow> int option
     \<Rightarrow> string list \<times> string" where
  "transcribe_audio_in qs configured outcome r audio_data question_id =
     (let handler = (\<lambda>e.
            ([''Transcription error: '' @ take 100 e],
             if id_given question_id then demo_transcript_in qs question_id r
             else ''Error in transcription. Please try again.''))
      in if \<not> configured then
           ([], if id_given question_id then demo_transcript_in qs question_id r
                else ''API not configured. Please add OpenAI API key to enable transcription.'')
         else
           (case get_audio_bytes audio_data of
              None \<Rightarrow> handler ''No audio data found''
            | Some audio_bytes \<Rightarrow>
                (case outcome of
                   TranscriptionText t \<Rightarrow> ([], t)
                 | TranscriptionRaises e \<Rightarrow> handler e)))"

definition transcribe_audio ::
  "bool \<Rightarrow> transcription \<Rightarrow> nat \<Rightarrow> ss_value \<Rightarrow> int option \<Rightarrow> string list \<times> string" where
  "transcribe_audio = transcribe_audio_in QUESTIONS"

section \<open>Session state and progress\<close>

text \<open>
  A Python dictionary is an association list in insertion order: \<^verbatim>\<open>d[k] = v\<close> is
  \<^term>\<open>AList.update k v d\<close> (in place for a key that is there, at the end otherwise),
  \<^verbatim>\<open>del d[k]\<close> is \<^term>\<open>AList.delete k d\<close>. Both keep the keys distinct, as the keys of a
  dictionary are, and then \<^verbatim>\<open>len(d)\<close> is the length of the list.
\<close>

text \<open>\<^verbatim>\<open>k in d\<close>.\<close>

definition has_key :: "('k \<times> 'v) list \<Rightarrow> 'k \<Rightarrow> bool" where
  "has_key d k = (map_of d k \<noteq> None)"

text \<open>\<^verbatim>\<open>d.get(k, default)\<close>.\<close>

definition get_or :: "('k \<times> 'v) list \<Rightarrow> 'k \<Rightarrow> 'v \<Rightarrow> 'v" where
  "get_or d k dflt = (case map_of d k of None \<Rightarrow> dflt | Some v \<Rightarrow> v)"

text \<open>\<^verbatim>\<open>if k not in d: d[k] = v\<close>.\<close>

definition init_key :: "'k \<Rightarrow> 'v \<Rightarrow> ('k \<times> 'v) list \<Rightarrow> ('k \<times> 'v) list" where
  "init_key k v d = (if \<not> has_key d k then AList.update k v d else d)"

text \<open>
  \<^verbatim>\<open>st.session_state.progress\<close>. The keys of its dictionaries and the members of
  \<^verbatim>\<open>'completed'\<close> are the strings \<^verbatim>\<open>str(question['id'])\<close>. The values of \<^verbatim>\<open>'evaluations'\<close>
  are whatever is copied there, also from the session cache, so they stay untyped.
\<close>

record progress_store =
  completed :: "string list"
  scores :: "(string \<times> int) list"
  answers :: "(string \<times> string) list"
  transcripts :: "(string \<times> string) list"
  evaluations :: "(string \<times> ss_value) list"

text \<open>The dictionary of lines 89--95, and again of \<^verbatim>\<open>reset_all_progress\<close>.\<close>

definition initial_progress :: progress_store where
  "initial_progress =
     \<lparr> completed = [], scores = [], answers = [], transcripts = [], evaluations = [] \<rparr>"

text \<open>
  \<^verbatim>\<open>st.session_state\<close>: the keys \<^verbatim>\<open>'api_configured'\<close> and \<^verbatim>\<open>'progress'\<close> as fields, every
  other key in \<open>ui_state\<close>. (\<^verbatim>\<open>'openai_client'\<close> and \<^verbatim>\<open>'page'\<close> are not read by the functions
  modelled here. None of the four names starts with a prefix that
  \<^verbatim>\<open>clear_question_data\<close> looks for, and \<^verbatim>\<open>reset_all_progress\<close> keeps all four.) Keys that the
  framework adds for its widgets are not tracked; the statements below hold for any
  content of \<open>ui_state\<close>.
\<close>

record session =
  api_configured :: bool
  progress :: progress_store
  ui_state :: "(string \<times> ss_value) list"

text \<open>\<^verbatim>\<open>str(n)\<close> for an integer.\<close>

fun digits :: "nat \<Rightarrow> string" where
  "digits n =
     (if n < 10 then [char_of (48 + n)]
      else digits (n div 10) @ [char_of (48 + n mod 10)])"

definition str_py :: "int \<Rightarrow> string" where
  "str_py i = (if i < 0 then CHR ''-'' # digits (nat (- i)) else digits (nat i))"

subsection \<open>Writes to the progress store\<close>

text \<open>\<^verbatim>\<open>progress['answers'][qid] = text\<close> (lines 700, 708, 740 and 776).\<close>

definition record_answer :: "string \<Rightarrow> string \<Rightarrow> progress_store \<Rightarrow> progress_store" where
  "record_answer qid text p = p\<lparr>answers := AList.update qid text (answers p)\<rparr>"

text \<open>Lines 785--797: the completed mark, the score and the evaluation detail.\<close>

definition record_evaluation ::
  "string \<Rightarrow> int \<Rightarrow> eval_data \<Rightarrow> progress_store \<Rightarrow> progress_store" where
  "record_evaluation qid sc ed p =
     p\<lparr>completed := (if qid \<notin> set (completed p) then completed p @ [qid] else completed p),
       scores := AList.update qid sc (scores p),
       evaluations := AList.update qid (EvalVal ed) (evaluations p)\<rparr>"

text \<open>Lines 757--763: an evaluation cached in the session under \<^verbatim>\<open>evaluation_{qid}\<close> is
  copied into the store when the store has none for \<open>qid\<close>.\<close>

definition restore_evaluation ::
  "string \<Rightarrow> (string \<times> ss_value) list \<Rightarrow> progress_store \<Rightarrow> progress_store" where
  "restore_evaluation qid ui p =
     (if has_key (evaluations p) qid then p
      else (case map_of ui (''evaluation_'' @ qid) of
              Some cached \<Rightarrow> p\<lparr>evaluations := AList.update qid cached (evaluations p)\<rparr>
            | None \<Rightarrow> p))"

text \<open>The second half of \<^verbatim>\<open>clear_question_data\<close> (lines 252--264).\<close>

definition clear_progress :: "string \<Rightarrow> progress_store \<Rightarrow> progress_store" where
  "clear_progress qid_str p =
     p\<lparr>answers := (if has_key (answers p) qid_str
                    then AList.delete qid_str (answers p) else answers p),
       scores := (if has_key (scores p) qid_str
                   then AList.delete qid_str (scores p) else scores p),
       completed := (if qid_str \<in> set (completed p)
                      then filter (\<lambda>q. q \<noteq> qid_str) (completed p) else completed p),
       transcripts := (if has_key (transcripts p) qid_str
                        then AList.delete qid_str (transcripts p) else transcripts p),
       evaluations := (if has_key (evaluations p) qid_str
                        then AList.delete qid_str (evaluations p) else evaluations p)\<rparr>"

text \<open>The test of the first loop of \<^verbatim>\<open>clear_question_data\<close>: the key starts with one of
  the ten prefixes.\<close>

definition to_clear :: "string \<Rightarrow> string \<Rightarrow> bool" where
  "to_clear qid key =
     (startswith key (''audio_transcript_'' @ qid) \<or>
      startswith key (''text_answer_'' @ qid) \<or>
      startswith key (''last_audio_'' @ qid) \<or>
      startswith key (''audio_input_'' @ qid) \<or>
      startswith key (''audio_uploaded_'' @ qid) \<or>
      startswith key (''audio_recorder_'' @ qid) \<or>
      startswith key (''transcript_display_'' @ qid) \<or>
      startswith key (''record_count_'' @ qid) \<or>
      startswith key (''recording_active_'' @ qid) \<or>
      startswith key (''audio_data_'' @ qid))"

text \<open>
  \<^verbatim>\<open>clear_question_data(qid)\<close>, called with the string \<open>qid\<close> (so \<^verbatim>\<open>str(qid)\<close> is \<open>qid\<close>). The
  order in which \<^verbatim>\<open>list(set(keys_to_clear))\<close> lists the keys does not matter to the deletions.
  It returns \<^verbatim>\<open>True\<close> always.
\<close>

definition clear_question_data :: "string \<Rightarrow> session \<Rightarrow> session" where
  "clear_question_data qid s =
     (let keys_to_clear = remdups (filter (to_clear qid) (map fst (ui_state s)))
      in s\<lparr>ui_state := fold AList.delete keys_to_clear (ui_state s),
            progress := clear_progress qid (progress s)\<rparr>)"

text \<open>\<^verbatim>\<open>reset_all_progress()\<close>.\<close>

definition reset_all_progress :: "session \<Rightarrow> session" where
  "reset_all_progress s =
     (let keys_to_clear =
            filter (\<lambda>k. k \<notin> set [''api_configured'', ''openai_client'', ''page'', ''progress''])
              (map fst (ui_state s))
      in s\<lparr>progress := initial_progress,
            ui_state := fold AList.delete keys_to_clear (ui_state s)\<rparr>)"

text \<open>The quick stats of \<^verbatim>\<open>show_sidebar\<close> (lines 398--406): the completed count, the attempted
  count, and the total and number of the scores behind the average, which is shown only
  when there is a score.\<close>

definition summary :: "progress_store \<Rightarrow> nat \<times> nat \<times> (int \<times> nat) option" where
  "summary p =
     (length (completed p), length (answers p),
      if scores p \<noteq> [] then Some (sum_list (map snd (scores p)), length (scores p)) else None)"

section \<open>The practice page\<close>

text \<open>
  One run of \<^verbatim>\<open>show_practice\<close> is one script run of the framework. What the user did
  since the last run is the event: at most one button reads \<^verbatim>\<open>True\<close> in a run, or the
  audio widget holds a new recording. A button that the run does not reach is not read.
  A run ends at its last line, at \<^verbatim>\<open>st.rerun()\<close> (which leaves the script through an
  exception that is no \<^verbatim>\<open>Exception\<close>, so no \<^verbatim>\<open>except Exception\<close> of the program catches
  it), or with an uncaught Python exception; the session state after an uncaught
  exception is not tracked. Calls that only display are left out.
\<close>

datatype py_error = KeyError | TypeError | AttributeError | ValueError | IndexError

datatype event =
    NoEvent
  | ReRecord
  | AudioInput string
  | CancelRecording
  | StartRecording
  | TranscribeAudio
  | RemoveAudio
  | EvaluateAnswer
  | ResetQuestion

datatype outcome = Finished session | Rerun session | Raised py_error

text \<open>\<^verbatim>\<open>d[k] += 1\<close>: an integer or a boolean can be added to, anything else cannot.\<close>

definition increment ::
  "string \<Rightarrow> (string \<times> ss_value) list \<Rightarrow> py_error + (string \<times> ss_value) list" where
  "increment k d =
     (case map_of d k of
        None \<Rightarrow> Inl KeyError
      | Some (IntVal n) \<Rightarrow> Inr (AList.update k (IntVal (n + 1)) d)
      | Some (BoolVal b) \<Rightarrow> Inr (AList.update k (IntVal ((if b then 1 else 0) + 1)) d)
      | Some v \<Rightarrow> Inl TypeError)"

text \<open>\<^verbatim>\<open>audio_recorder_component(question_id)\<close>.\<close>

definition audio_recorder_component :: "int \<Rightarrow> event \<Rightarrow> session \<Rightarrow> outcome" where
  "audio_recorder_component question_id ev s =
     (let qid = str_py question_id;
          recording_active = ''recording_active_'' @ qid;
          record_count = ''record_count_'' @ qid;
          last_audio_key = ''last_audio_'' @ qid;
          d = init_key record_count (IntVal 0)
                (init_key recording_active (BoolVal False) (ui_state s))
      in if has_key d last_audio_key \<and> map_of d last_audio_key \<noteq> Some NoneVal then
           (if ev = ReRecord then
              (case increment record_count
                      (AList.update recording_active (BoolVal True)
                        (AList.update last_audio_key NoneVal d)) of
                 Inl e \<Rightarrow> Raised e
               | Inr d' \<Rightarrow>
                   Rerun (s\<lparr>ui_state :=
                     fold AList.delete
                       (filter (\<lambda>key. startswith key (''audio_recorder_'' @ qid)) (map fst d'))
                       d'\<rparr>))
            else Finished (s\<lparr>ui_state := d\<rparr>))
         else
           (case map_of d recording_active of
              None \<Rightarrow> Raised KeyError
            | Some active \<Rightarrow>
                if truthy active then
                  (case ev of
                     AudioInput audio \<Rightarrow>
                       Rerun (s\<lparr>ui_state :=
                         AList.update recording_active (BoolVal False)
                           (AList.update last_audio_key (AudioVal audio) d)\<rparr>)
                   | CancelRecording \<Rightarrow>
                       Rerun (s\<lparr>ui_state := AList.update recording_active (BoolVal False) d\<rparr>)
                   | _ \<Rightarrow> Finished (s\<lparr>ui_state := d\<rparr>))
                else
                  (if ev = StartRecording then
                     (case increment record_count
                             (AList.update recording_active (BoolVal True) d) of
                        Inl e \<Rightarrow> Raised e
                      | Inr d' \<Rightarrow> Rerun (s\<lparr>ui_state := d'\<rparr>))
                   else Finished (s\<lparr>ui_state := d\<rparr>))))"

text \<open>
  Lines 669--733 of \<^verbatim>\<open>show_practice\<close>. \<^verbatim>\<open>transcribe_audio\<close> raises nothing and the rerun is
  no \<^verbatim>\<open>Exception\<close>, so the handler of lines 703--710 (which would store a demo transcript
  as the answer) is not entered.
\<close>

definition audio_section ::
  "question_entry \<Rightarrow> event \<Rightarrow> transcription \<Rightarrow> nat \<Rightarrow> session \<Rightarrow> outcome" where
  "audio_section q ev t_outcome r s =
     (let qid = str_py (id_q q);
          transcript_key = ''audio_transcript_'' @ qid;
          text_answer_key = ''text_answer_'' @ qid;
          last_audio_key = ''last_audio_'' @ qid;
          recording_active = ''recording_active_'' @ qid
      in if \<not> api_configured s then Finished s
         else
           (case audio_recorder_component (id_q q) ev s of
              Finished s1 \<Rightarrow>
                (case map_of (ui_state s1) last_audio_key of
                   None \<Rightarrow> Raised KeyError
                 | Some NoneVal \<Rightarrow> Finished s1
                 | Some audio \<Rightarrow>
                     (let transcript =
                            snd (transcribe_audio (api_configured s1) t_outcome r audio
                                   (Some (id_q q)))
                      in if ev = TranscribeAudio \<and> transcript \<noteq> [] then
                           Rerun (s1\<lparr>ui_state :=
                                     AList.update text_answer_key (StrVal transcript)
                                       (AList.update transcript_key (StrVal transcript)
                                         (ui_state s1)),
                                   progress := record_answer qid transcript (progress s1)\<rparr>)
                         else if ev = RemoveAudio then
                           Rerun (s1\<lparr>ui_state :=
                                     (let d = AList.update last_audio_key NoneVal (ui_state s1)
                                      in if has_key d recording_active
                                         then AList.update recording_active (BoolVal False) d
                                         else d)\<rparr>)
                         else if has_key (ui_state s1) transcript_key then Finished s1
                         else Raised KeyError))
            | other \<Rightarrow> other))"

text \<open>
  Lines 736--860 of \<^verbatim>\<open>show_practice\<close>, for the answer \<^verbatim>\<open>final_answer\<close> read at line 736 when
  it is a string: the answer is saved, a cached evaluation restored, and the evaluation
  runs only behind the test \<^verbatim>\<open>final_answer and final_answer.strip()\<close>; otherwise the button
  is drawn disabled. Showing a restored evaluation that is no dictionary raises
  \<^verbatim>\<open>TypeError\<close>.
\<close>

definition evaluation_body ::
  "question_entry \<Rightarrow> event \<Rightarrow> completion \<Rightarrow> nat \<Rightarrow> string \<Rightarrow> string \<Rightarrow> session \<Rightarrow> outcome" where
  "evaluation_body q ev c_outcome r existing_answer final_answer s =
     (let qid = str_py (id_q q);
          evaluation_key = ''evaluation_'' @ qid;
          p1 = (if final_answer \<noteq> [] \<and> final_answer \<noteq> existing_answer
                then record_answer qid final_answer (progress s) else progress s);
          shown = (if has_key (evaluations p1) qid then map_of (evaluations p1) qid
                   else map_of (ui_state s) evaluation_key);
          s1 = s\<lparr>progress := restore_evaluation qid (ui_state s) p1\<rparr>;
          reset_button =
            (if ev = ResetQuestion then Rerun (clear_question_data qid s1) else Finished s1)
      in if final_answer \<noteq> [] \<and> strip final_answer \<noteq> [] then
           (if ev = EvaluateAnswer then
              (let wc = length (split_ws [] final_answer);
                   p3 = record_answer qid final_answer (progress s1);
                   ai_eval = snd (evaluate_with_gpt (api_configured s1) c_outcome r q final_answer);
                   ed = \<lparr> overall_score = score ai_eval, word_count = wc,
                          feedback_dict = ai_eval \<rparr>
               in Rerun (s1\<lparr>ui_state := AList.update evaluation_key (EvalVal ed) (ui_state s1),
                            progress := record_evaluation qid (score ai_eval) ed p3\<rparr>))
            else
              (case shown of
                 None \<Rightarrow> reset_button
               | Some (EvalVal e) \<Rightarrow> reset_button
               | Some v \<Rightarrow> if truthy v then Raised TypeError else reset_button))
         else reset_button)"

text \<open>
  The read of line 736, \<^verbatim>\<open>st.session_state.get(text_answer_key, "")\<close>. A value that is
  false behaves as the empty string in every test that follows; a true value that is no
  string is saved as the answer and then fails at \<^verbatim>\<open>final_answer.split()\<close>.
\<close>

definition evaluation_section ::
  "question_entry \<Rightarrow> event \<Rightarrow> completion \<Rightarrow> nat \<Rightarrow> string \<Rightarrow> session \<Rightarrow> outcome" where
  "evaluation_section q ev c_outcome r existing_answer s =
     (case get_or (ui_state s) (''text_answer_'' @ str_py (id_q q)) (StrVal []) of
        StrVal final_answer \<Rightarrow> evaluation_body q ev c_outcome r existing_answer final_answer s
      | v \<Rightarrow> if truthy v then Raised AttributeError
             else evaluation_body q ev c_outcome r existing_answer [] s)"

text \<open>
  \<^verbatim>\<open>show_practice()\<close> for the question \<open>q\<close> chosen in the select box (always an entry of the
  bank), the event, the outcomes of the two services should they be called, and the
  random draw.
\<close>

definition show_practice ::
  "question_entry \<Rightarrow> event \<Rightarrow> transcription \<Rightarrow> completion \<Rightarrow> nat \<Rightarrow> session \<Rightarrow> outcome" where
  "show_practice q ev t_outcome c_outcome r s =
     (let qid = str_py (id_q q);
          existing_answer = get_or (answers (progress s)) qid [];
          d = init_key (''last_audio_'' @ qid) NoneVal
                (init_key (''text_answer_'' @ qid) (StrVal existing_answer)
                  (init_key (''audio_transcript_'' @ qid) (StrVal []) (ui_state s)))
      in case audio_section q ev t_outcome r (s\<lparr>ui_state := d\<rparr>) of
           Finished s1 \<Rightarrow> evaluation_section q ev c_outcome r existing_answer s1
         | other \<Rightarrow> other)"

section \<open>The report\<close>

text \<open>
  The document is the sequence of its text cells, in the order \<^verbatim>\<open>generate_pdf\<close> writes them;
  fonts, line feeds and the encoding into bytes are layout. The average is kept as the
  pair it is computed from: its text is Python's float division and \<^verbatim>\<open>.1f\<close> formatting of
  that pair.
\<close>

datatype cell = Cell string | AverageScore int nat

text \<open>\<^verbatim>\<open>xs[i]\<close> with Python's negative indices.\<close>

definition index_py :: "'a list \<Rightarrow> int \<Rightarrow> py_error + 'a" where
  "index_py xs i =
     (if 0 \<le> i \<and> i < int (length xs) then Inr (xs ! nat i)
      else if i < 0 \<and> - int (length xs) \<le> i then Inr (xs ! nat (int (length xs) + i))
      else Inl IndexError)"

text \<open>\<^verbatim>\<open>sorted(keys, key=int)\<close>: \<^verbatim>\<open>ValueError\<close> when a key is no integer, else the stable sort.\<close>

definition sorted_by_int :: "string list \<Rightarrow> py_error + string list" where
  "sorted_by_int ks =
     (if list_ex (\<lambda>k. int_py k = None) ks then Inl ValueError
      else Inr (sort_key (\<lambda>k. the (int_py k)) ks))"

text \<open>The body of the loop of lines 1132--1149 for one key.\<close>

definition question_block ::
  "question_entry list \<Rightarrow> progress_store \<Rightarrow> string \<Rightarrow> py_error + cell list" where
  "question_block qs p qid =
     (case int_py qid of
        None \<Rightarrow> Inl ValueError
      | Some n \<Rightarrow>
          (case index_py qs (n - 1) of
             Inl e \<Rightarrow> Inl e
           | Inr q \<Rightarrow>
               (case map_of (answers p) qid of
                  None \<Rightarrow> Inl KeyError
                | Some answer \<Rightarrow>
                    Inr [Cell (''Question '' @ qid @ '': '' @ question q),
                         (if qid \<in> set (completed p) then
                            Cell (''Score: '' @ str_py (get_or (scores p) qid 0) @
                                  ''% | Category: '' @ category q @
                                  '' | Difficulty: '' @ difficulty q)
                          else
                            Cell (''Status: Recorded (Not evaluated) | Category: '' @ category q)),
                         Cell (''Your Answer: '' @
                               (if length answer > 400 then take 400 answer @ ''...''
                                else answer))])))"

fun question_blocks ::
  "question_entry list \<Rightarrow> progress_store \<Rightarrow> string list \<Rightarrow> py_error + cell list" where
  "question_blocks qs p [] = Inr []"
| "question_blocks qs p (qid # qids) =
     (case question_block qs p qid of
        Inl e \<Rightarrow> Inl e
      | Inr cells \<Rightarrow>
          (case question_blocks qs p qids of
             Inl e \<Rightarrow> Inl e
           | Inr rest \<Rightarrow> Inr (cells @ rest)))"

text \<open>
  \<^verbatim>\<open>generate_pdf()\<close> over a bank \<open>qs\<close>; \<open>now\<close> is the text of
  \<^verbatim>\<open>datetime.now().strftime('%Y-%m-%d %H:%M:%S')\<close>.
\<close>

definition generate_pdf_in ::
  "question_entry list \<Rightarrow> string \<Rightarrow> session \<Rightarrow> py_error + cell list" where
  "generate_pdf_in qs now s =
     (let p = progress s;
          mode = (if \<not> api_configured s then ''Demo Mode'' else ''Real AI Mode'');
          head =
            [Cell ''Tech Interview Practice Report'',
             Cell (''Generated: '' @ now),
             Cell (''Mode: '' @ mode),
             Cell ''Progress Summary'',
             Cell (''Total Questions: '' @ str_py (int (length qs))),
             Cell (''Questions Attempted: '' @ str_py (int (length (answers p)))),
             Cell (''Questions Evaluated: '' @ str_py (int (length (completed p))))];
          stats =
            (case map snd (scores p) of
               [] \<Rightarrow> []
             | v # vs \<Rightarrow>
                 [AverageScore (sum_list (v # vs)) (length (v # vs)),
                  Cell (''Highest Score: '' @ str_py (fold max vs v) @ ''%''),
                  Cell (''Lowest Score: '' @ str_py (fold min vs v) @ ''%'')])
      in case sorted_by_int (map fst (answers p)) of
           Inl e \<Rightarrow> Inl e
         | Inr qids \<Rightarrow>
             (case question_blocks qs p qids of
                Inl e \<Rightarrow> Inl e
              | Inr blocks \<Rightarrow>
                  Inr (head @ stats @ [Cell ''Question Details''] @ blocks @
                       [Cell ''Generated by Tech Interview Practice Platform''])))"

definition generate_pdf :: "string \<Rightarrow> session \<Rightarrow> py_error + cell list" where
  "generate_pdf = generate_pdf_in QUESTIONS"

section \<open>Vocabulary of the statements\<close>

text \<open>The stripped lines of a response that start with a label, in order; the last one is
  the one whose value the loop of \<^verbatim>\<open>evaluate_with_gpt\<close> leaves in the result.\<close>

definition labelled :: "string \<Rightarrow> string \<Rightarrow> string list" where
  "labelled label response_text =
     filter (\<lambda>line. startswith line label) (map strip (split_py (CHR 0x0A) response_text))"

text \<open>The comma-separated non-blank items of a labelled line, as lines 564--568 read them.\<close>

definition items :: "string \<Rightarrow> string \<Rightarrow> string list" where
  "items label line =
     map strip (filter (\<lambda>s. strip s \<noteq> []) (split_py CHR '','' (strip (replace label [] line))))"

text \<open>The integer on the last \<^verbatim>\<open>SCORE:\<close> line, if there is such a line and it is one.\<close>

definition last_score :: "string \<Rightarrow> int option" where
  "last_score response_text =
     (if labelled ''SCORE:'' response_text = [] then None
      else int_py (strip (replace ''SCORE:'' [] (last (labelled ''SCORE:'' response_text)))))"

text \<open>The five feedback texts of \<^verbatim>\<open>get_demo_feedback\<close>.\<close>

definition demo_feedback_texts :: "string list" where
  "demo_feedback_texts =
     [''Your understanding of data structures is basic. To improve, provide more specific examples and discuss time/space complexities.'',
      ''You explained the concept but need more detail. Add complexity analysis and implementation details.'',
      ''Good high-level thinking. Add more specific components, technologies, and scalability considerations.'',
      ''Good personal example. Use the STAR method more clearly and add specific outcomes/metrics.'',
      ''Good attempt. Add more technical details and real-world applications.'']"

text \<open>
  The progress stores the program can reach: from the empty one, by every write to
  \<^verbatim>\<open>st.session_state.progress\<close> that \<^verbatim>\<open>app.py\<close> has: an answer recorded, an evaluation
  recorded, a cached evaluation restored, one question cleared, everything reset.
\<close>

inductive reachable :: "progress_store \<Rightarrow> bool" where
  start: "reachable initial_progress"
| answer: "reachable p \<Longrightarrow> reachable (record_answer qid a p)"
| evaluation: "reachable p \<Longrightarrow> reachable (record_evaluation qid sc ed p)"
| restore: "reachable p \<Longrightarrow> reachable (restore_evaluation qid ui p)"
| clear: "reachable (progress s) \<Longrightarrow> reachable (progress (clear_question_data qid s))"
| reset: "reachable (progress s) \<Longrightarrow> reachable (progress (reset_all_progress s))"

text \<open>Every completed question has a score and an evaluation detail.\<close>

definition completed_have_results :: "progress_store \<Rightarrow> bool" where
  "completed_have_results p =
     list_all (\<lambda>q. has_key (scores p) q \<and> has_key (evaluations p) q) (completed p)"

text \<open>
  The value that line 736 of \<^verbatim>\<open>show_practice\<close> reads as the answer in a run that starts in
  \<open>s\<close>: the text answer of the session for the question, or, when the session has none, the
  stored answer that line 662 puts there.
\<close>

definition final_answer_of :: "question_entry \<Rightarrow> session \<Rightarrow> ss_value" where
  "final_answer_of q s =
     get_or (ui_state s) (''text_answer_'' @ str_py (id_q q))
       (StrVal (get_or (answers (progress s)) (str_py (id_q q)) []))"

text \<open>The four generic sentences of \<^verbatim>\<open>get_question_demo_transcript\<close>, by category.\<close>

definition category_sentences :: "(string \<times> string) list" where
  "category_sentences =
     [(''Data Structures'',
       ''Data structures organize and store data efficiently. Different structures optimize for different operations like access, insertion, or deletion.''),
      (''Algorithms'',
       ''Algorithms are step-by-step procedures for solving problems. Time and space complexity analysis helps compare algorithm efficiency.''),
      (''System Design'',
       ''System design involves creating scalable, reliable architectures. Key considerations include load balancing, caching, database choice, and fault tolerance.''),
      (''Behavioral'',
       ''Behavioral questions assess soft skills and experience. Use the STAR method (Situation, Task, Action, Result) to structure responses.'')]"

section \<open>Evaluation: parsing, demo scores, score range\<close>

lemma randint_range: "a \<le> b \<Longrightarrow> a \<le> randint a b r \<and> randint a b r \<le> b"
proof -
  assume ab: "a \<le> b"
  have "0 < nat (b - a + 1)" using ab by simp
  then have "r mod nat (b - a + 1) < nat (b - a + 1)" by simp
  then have "int (r mod nat (b - a + 1)) < b - a + 1" using ab by linarith
  then show ?thesis unfolding randint_def by simp
qed

lemma not_score_label:
  "startswith l ''STRENGTHS:'' \<Longrightarrow> \<not> startswith l ''SCORE:''"
  "startswith l ''IMPROVEMENTS:'' \<Longrightarrow> \<not> startswith l ''SCORE:''"
  "startswith l ''IMPROVEMENTS:'' \<Longrightarrow> \<not> startswith l ''STRENGTHS:''"
  "startswith l ''FEEDBACK:'' \<Longrightarrow> \<not> startswith l ''SCORE:''"
  "startswith l ''FEEDBACK:'' \<Longrightarrow> \<not> startswith l ''STRENGTHS:''"
  "startswith l ''FEEDBACK:'' \<Longrightarrow> \<not> startswith l ''IMPROVEMENTS:''"
  unfolding startswith_def by (auto dest: prefix_same_cases)

lemma parse_line_score:
  "score (parse_line result raw) =
     (if startswith (strip raw) ''SCORE:''
      then (case int_py (strip (replace ''SCORE:'' [] (strip raw))) of Some n \<Rightarrow> n | None \<Rightarrow> 50)
      else score result)"
  by (simp add: parse_line_def Let_def split: option.splits)

lemma parse_line_strengths:
  "strengths (parse_line result raw) =
     (if startswith (strip raw) ''STRENGTHS:'' then items ''STRENGTHS:'' (strip raw)
      else strengths result)"
  by (simp add: parse_line_def Let_def items_def not_score_label split: option.splits)

lemma parse_line_improvements:
  "improvements (parse_line result raw) =
     (if startswith (strip raw) ''IMPROVEMENTS:'' then items ''IMPROVEMENTS:'' (strip raw)
      else improvements result)"
  by (simp add: parse_line_def Let_def items_def not_score_label split: option.splits)

lemma parse_line_feedback:
  "feedback (parse_line result raw) =
     (if startswith (strip raw) ''FEEDBACK:'' then strip (replace ''FEEDBACK:'' [] (strip raw))
      else feedback result)"
  by (simp add: parse_line_def Let_def not_score_label split: option.splits)

lemma foldl_parse_line_field:
  assumes step: "\<And>result raw. fld (parse_line result raw) =
                   (if startswith (strip raw) label then val (strip raw) else fld result)"
  shows "fld (foldl parse_line result ls) =
     (let sl = filter (\<lambda>line. startswith line label) (map strip ls) in
      if sl = [] then fld result else val (last sl))"
proof (induction ls rule: rev_induct)
  case Nil
  then show ?case by simp
next
  case (snoc l ls)
  then show ?case by (simp add: step Let_def)
qed

lemma parse_response_score:
  "score (parse_response t) = (case last_score t of None \<Rightarrow> 50 | Some n \<Rightarrow> n)"
  using foldl_parse_line_field [of score "''SCORE:''", OF parse_line_score]
  by (simp add: parse_response_def labelled_def last_score_def Let_def)

lemma parse_response_strengths:
  "strengths (parse_response t) =
     (if labelled ''STRENGTHS:'' t = [] \<or> items ''STRENGTHS:'' (last (labelled ''STRENGTHS:'' t)) = []
      then [''Clear communication'', ''Good attempt'']
      else items ''STRENGTHS:'' (last (labelled ''STRENGTHS:'' t)))"
  using foldl_parse_line_field [of strengths "''STRENGTHS:''", OF parse_line_strengths]
  by (simp add: parse_response_def labelled_def Let_def)

lemma parse_response_improvements:
  "improvements (parse_response t) =
     (if labelled ''IMPROVEMENTS:'' t = [] \<or> items ''IMPROVEMENTS:'' (last (labelled ''IMPROVEMENTS:'' t)) = []
      then [''Add more technical details'', ''Be more specific'']
      else items ''IMPROVEMENTS:'' (last (labelled ''IMPROVEMENTS:'' t)))"
  using foldl_parse_line_field [of improvements "''IMPROVEMENTS:''", OF parse_line_improvements]
  by (simp add: parse_response_def labelled_def Let_def)

lemma parse_response_feedback:
  "feedback (parse_response t) =
     (if labelled ''FEEDBACK:'' t = [] \<or>
         strip (replace ''FEEDBACK:'' [] (last (labelled ''FEEDBACK:'' t))) = []
      then ''Good effort. Consider providing more specific technical details and examples to improve your answer.''
      else strip (replace ''FEEDBACK:'' [] (last (labelled ''FEEDBACK:'' t))))"
  using foldl_parse_line_field [of feedback "''FEEDBACK:''", OF parse_line_feedback]
  by (simp add: parse_response_def labelled_def Let_def)

text \<open>
  Claim C1. For every response text of the live service the parse of the four labelled
  lines returns a dictionary (no error is reported and there is no fall back to the demo
  path), and each field is read from the lines of its own label and from nothing else,
  so it degrades by itself. The score is the integer on the last \<^verbatim>\<open>SCORE:\<close> line, and 50
  when there is no such line or its value is no integer. The strengths are the non-blank
  items of the last \<^verbatim>\<open>STRENGTHS:\<close> line, and the fixed generic list when there is no such line
  or it has no such item; the improvements likewise; the feedback is the text of the last
  \<^verbatim>\<open>FEEDBACK:\<close> line, and the fixed sentence when that is missing or blank. Hence a bad
  score leaves well-formed strengths, improvements and feedback as the service wrote
  them, and the other way round; and neither list is ever empty.
\<close>

theorem parse_response_degrades:
  "score (parse_response t) = (case last_score t of None \<Rightarrow> 50 | Some n \<Rightarrow> n) \<and>
   strengths (parse_response t) =
     (if labelled ''STRENGTHS:'' t = [] \<or>
         items ''STRENGTHS:'' (last (labelled ''STRENGTHS:'' t)) = []
      then [''Clear communication'', ''Good attempt'']
      else items ''STRENGTHS:'' (last (labelled ''STRENGTHS:'' t))) \<and>
   improvements (parse_response t) =
     (if labelled ''IMPROVEMENTS:'' t = [] \<or>
         items ''IMPROVEMENTS:'' (last (labelled ''IMPROVEMENTS:'' t)) = []
      then [''Add more technical details'', ''Be more specific'']
      else items ''IMPROVEMENTS:'' (last (labelled ''IMPROVEMENTS:'' t))) \<and>
   feedback (parse_response t) =
     (if labelled ''FEEDBACK:'' t = [] \<or>
         strip (replace ''FEEDBACK:'' [] (last (labelled ''FEEDBACK:'' t))) = []
      then ''Good effort. Consider providing more specific technical details and examples to improve your answer.''
      else strip (replace ''FEEDBACK:'' [] (last (labelled ''FEEDBACK:'' t)))) \<and>
   (labelled ''SCORE:'' t = [] \<or> last_score t = None \<longrightarrow> score (parse_response t) = 50) \<and>
   (labelled ''STRENGTHS:'' t = [] \<or> items ''STRENGTHS:'' (last (labelled ''STRENGTHS:'' t)) = []
      \<longrightarrow> strengths (parse_response t) = [''Clear communication'', ''Good attempt'']) \<and>
   (labelled ''IMPROVEMENTS:'' t = [] \<or> items ''IMPROVEMENTS:'' (last (labelled ''IMPROVEMENTS:'' t)) = []
      \<longrightarrow> improvements (parse_response t) = [''Add more technical details'', ''Be more specific'']) \<and>
   strengths (parse_response t) \<noteq> [] \<and>
   improvements (parse_response t) \<noteq> [] \<and>
   evaluate_with_gpt True (Content (Some t)) r q answer = ([], parse_response t)"
proof -
  have sc: "score (parse_response t) = (case last_score t of None \<Rightarrow> 50 | Some n \<Rightarrow> n)"
    by (rule parse_response_score)
  have st: "strengths (parse_response t) =
     (if labelled ''STRENGTHS:'' t = [] \<or>
         items ''STRENGTHS:'' (last (labelled ''STRENGTHS:'' t)) = []
      then [''Clear communication'', ''Good attempt'']
      else items ''STRENGTHS:'' (last (labelled ''STRENGTHS:'' t)))"
    by (rule parse_response_strengths)
  have im: "improvements (parse_response t) =
     (if labelled ''IMPROVEMENTS:'' t = [] \<or>
         items ''IMPROVEMENTS:'' (last (labelled ''IMPROVEMENTS:'' t)) = []
      then [''Add more technical details'', ''Be more specific'']
      else items ''IMPROVEMENTS:'' (last (labelled ''IMPROVEMENTS:'' t)))"
    by (rule parse_response_improvements)
  have fb: "feedback (parse_response t) =
     (if labelled ''FEEDBACK:'' t = [] \<or>
         strip (replace ''FEEDBACK:'' [] (last (labelled ''FEEDBACK:'' t))) = []
      then ''Good effort. Consider providing more specific technical details and examples to improve your answer.''
      else strip (replace ''FEEDBACK:'' [] (last (labelled ''FEEDBACK:'' t))))"
    by (rule parse_response_feedback)
  have s50: "labelled ''SCORE:'' t = [] \<or> last_score t = None \<longrightarrow> score (parse_response t) = 50"
    by (auto simp add: parse_response_score last_score_def)
  have st_def: "labelled ''STRENGTHS:'' t = [] \<or> items ''STRENGTHS:'' (last (labelled ''STRENGTHS:'' t)) = []
      \<longrightarrow> strengths (parse_response t) = [''Clear communication'', ''Good attempt'']"
    by (simp add: parse_response_strengths)
  have im_def: "labelled ''IMPROVEMENTS:'' t = [] \<or> items ''IMPROVEMENTS:'' (last (labelled ''IMPROVEMENTS:'' t)) = []
      \<longrightarrow> improvements (parse_response t) = [''Add more technical details'', ''Be more specific'']"
    by (simp add: parse_response_improvements)
  have ne: "strengths (parse_response t) \<noteq> []" "improvements (parse_response t) \<noteq> []"
    by (simp_all add: parse_response_strengths parse_response_improvements)
  have ev: "evaluate_with_gpt True (Content (Some t)) r q answer = ([], parse_response t)"
    by (simp add: evaluate_with_gpt_def)
  show ?thesis
    using sc st im fb s50 st_def im_def ne ev by (intro conjI)
qed

text \<open>
  Two responses. In the first the score is a word and the strengths are well formed: the
  score degrades to 50, the strengths stay as written, the missing improvements take
  their default. In the second the score is 85 and the strengths are blank: the score
  stays, the strengths take their default.
\<close>

theorem parse_response_degrades_witness:
  "last_score (''SCORE: high'' @ CHR 0x0A # ''STRENGTHS: clear, precise'') = None \<and>
   score (parse_response (''SCORE: high'' @ CHR 0x0A # ''STRENGTHS: clear, precise'')) = 50 \<and>
   strengths (parse_response (''SCORE: high'' @ CHR 0x0A # ''STRENGTHS: clear, precise'')) =
     [''clear'', ''precise''] \<and>
   labelled ''IMPROVEMENTS:'' (''SCORE: high'' @ CHR 0x0A # ''STRENGTHS: clear, precise'') = [] \<and>
   improvements (parse_response (''SCORE: high'' @ CHR 0x0A # ''STRENGTHS: clear, precise'')) =
     [''Add more technical details'', ''Be more specific''] \<and>
   labelled ''STRENGTHS:'' (''SCORE: 85'' @ CHR 0x0A # ''STRENGTHS: , ,'') \<noteq> [] \<and>
   items ''STRENGTHS:'' (last (labelled ''STRENGTHS:'' (''SCORE: 85'' @ CHR 0x0A # ''STRENGTHS: , ,''))) = [] \<and>
   strengths (parse_response (''SCORE: 85'' @ CHR 0x0A # ''STRENGTHS: , ,'')) =
     [''Clear communication'', ''Good attempt''] \<and>
   score (parse_response (''SCORE: 85'' @ CHR 0x0A # ''STRENGTHS: , ,'')) = 85"
proof -
  let ?t = "''SCORE: high'' @ CHR 0x0A # ''STRENGTHS: clear, precise''"
  let ?u = "''SCORE: 85'' @ CHR 0x0A # ''STRENGTHS: , ,''"
  have a: "last_score ?t = None" by code_simp
  have b: "labelled ''STRENGTHS:'' ?t \<noteq> []" by code_simp
  have c: "items ''STRENGTHS:'' (last (labelled ''STRENGTHS:'' ?t)) = [''clear'', ''precise'']"
    by code_simp
  have d: "labelled ''IMPROVEMENTS:'' ?t = []" by code_simp
  have e: "last_score ?u = Some 85" by code_simp
  have f: "labelled ''STRENGTHS:'' ?u \<noteq> []" by code_simp
  have g: "items ''STRENGTHS:'' (last (labelled ''STRENGTHS:'' ?u)) = []" by code_simp
  show ?thesis
    using a b c d e f g parse_response_degrades [of ?t] parse_response_degrades [of ?u]
    by simp
qed

lemma get_demo_feedback_score:
  "score (get_demo_feedback q r) =
     (if difficulty q = ''Easy'' then randint 70 90 r
      else if difficulty q = ''Medium'' then randint 60 80 r
      else randint 50 70 r)"
  by (simp add: get_demo_feedback_def Let_def)

lemma get_demo_feedback_score_bounds:
  "50 \<le> score (get_demo_feedback q r) \<and> score (get_demo_feedback q r) \<le> 90"
  using randint_range [of 70 90 r] randint_range [of 60 80 r] randint_range [of 50 70 r]
  by (simp add: get_demo_feedback_score)

text \<open>
  Claim C2. For every question and every random draw the demo score lies in the range of
  the difficulty: Easy in [70, 90], Medium in [60, 80], anything else in [50, 70]; the
  strengths and the improvements are the two fixed lists; and the feedback is one of five
  fixed texts, the same for any two questions of the same category.
\<close>

theorem get_demo_feedback_ranges:
  "(difficulty q = ''Easy'' \<longrightarrow>
      70 \<le> score (get_demo_feedback q r) \<and> score (get_demo_feedback q r) \<le> 90) \<and>
   (difficulty q = ''Medium'' \<longrightarrow>
      60 \<le> score (get_demo_feedback q r) \<and> score (get_demo_feedback q r) \<le> 80) \<and>
   (difficulty q \<noteq> ''Easy'' \<and> difficulty q \<noteq> ''Medium'' \<longrightarrow>
      50 \<le> score (get_demo_feedback q r) \<and> score (get_demo_feedback q r) \<le> 70) \<and>
   strengths (get_demo_feedback q r) = [''Clear explanation'', ''Good structure''] \<and>
   improvements (get_demo_feedback q r) = [''Add more examples'', ''Be more concise''] \<and>
   feedback (get_demo_feedback q r) \<in> set demo_feedback_texts \<and>
   (category q' = category q \<longrightarrow>
      feedback (get_demo_feedback q' r') = feedback (get_demo_feedback q r))"
proof -
  have "strengths (get_demo_feedback q r) = [''Clear explanation'', ''Good structure'']"
    "improvements (get_demo_feedback q r) = [''Add more examples'', ''Be more concise'']"
    by (simp_all add: get_demo_feedback_def Let_def)
  moreover have "feedback (get_demo_feedback q r) \<in> set demo_feedback_texts"
    by (simp add: get_demo_feedback_def Let_def demo_feedback_texts_def)
  moreover have "category q' = category q \<longrightarrow>
      feedback (get_demo_feedback q' r') = feedback (get_demo_feedback q r)"
    by (simp add: get_demo_feedback_def Let_def)
  ultimately show ?thesis
    using randint_range [of 70 90 r] randint_range [of 60 80 r] randint_range [of 50 70 r]
    by (simp add: get_demo_feedback_score)
qed

text \<open>The three difficulties of the bank, and two questions of one category.\<close>

theorem get_demo_feedback_ranges_witness:
  "difficulty question_2 = ''Easy'' \<and>
   70 \<le> score (get_demo_feedback question_2 41) \<and> score (get_demo_feedback question_2 41) \<le> 90 \<and>
   difficulty question_1 = ''Medium'' \<and>
   60 \<le> score (get_demo_feedback question_1 41) \<and> score (get_demo_feedback question_1 41) \<le> 80 \<and>
   difficulty question_3 \<noteq> ''Easy'' \<and> difficulty question_3 \<noteq> ''Medium'' \<and>
   50 \<le> score (get_demo_feedback question_3 41) \<and> score (get_demo_feedback question_3 41) \<le> 70 \<and>
   category question_4 = category question_2 \<and>
   feedback (get_demo_feedback question_4 7) = feedback (get_demo_feedback question_2 41)"
proof -
  have e: "difficulty question_2 = ''Easy''" by (simp add: question_2_def)
  have m: "difficulty question_1 = ''Medium''" by (simp add: question_1_def)
  have h: "difficulty question_3 \<noteq> ''Easy'' \<and> difficulty question_3 \<noteq> ''Medium''"
    by (simp add: question_3_def)
  have c: "category question_4 = category question_2"
    by (simp add: question_4_def question_2_def)
  show ?thesis
    using e m h c
      get_demo_feedback_ranges [of question_2 41 question_4 7]
      get_demo_feedback_ranges [of question_1 41]
      get_demo_feedback_ranges [of question_3 41]
    by simp
qed

text \<open>
  Claim C3 as stated fails on the live path: the score is the integer the service wrote,
  and nothing clamps it.
\<close>

theorem evaluate_score_counterexample:
  "\<not> (0 \<le> score (snd (evaluate_with_gpt True (Content (Some ''SCORE: 150'')) 0 question_2
                        ''Binary search halves a sorted array.'')) \<and>
       score (snd (evaluate_with_gpt True (Content (Some ''SCORE: 150'')) 0 question_2
                        ''Binary search halves a sorted array.'')) \<le> 100)"
proof -
  have "last_score ''SCORE: 150'' = Some 150" by code_simp
  then show ?thesis by (simp add: evaluate_with_gpt_def parse_response_score)
qed

text \<open>
  Claim C3, amended. For every question and answer the score of the result of
  \<^verbatim>\<open>evaluate_with_gpt\<close> is an integer. On the demo path (no live service, the call raised, or
  the response had no content) it lies in [50, 90]. On the live path it is 50 when the
  response has no \<^verbatim>\<open>SCORE:\<close> line or the value of the last one is no integer, and else that
  integer as written; so it lies in [0, 100] whenever that integer does.
\<close>

theorem evaluate_score:
  "(\<not> configured \<or> (\<forall>t. outcome \<noteq> Content (Some t)) \<longrightarrow>
      50 \<le> score (snd (evaluate_with_gpt configured outcome r q answer)) \<and>
      score (snd (evaluate_with_gpt configured outcome r q answer)) \<le> 90) \<and>
   (configured \<and> outcome = Content (Some t) \<longrightarrow>
      score (snd (evaluate_with_gpt configured outcome r q answer)) =
        (case last_score t of None \<Rightarrow> 50 | Some n \<Rightarrow> n)) \<and>
   (configured \<and> outcome = Content (Some t) \<and> (\<forall>n. last_score t = Some n \<longrightarrow> 0 \<le> n \<and> n \<le> 100) \<longrightarrow>
      0 \<le> score (snd (evaluate_with_gpt configured outcome r q answer)) \<and>
      score (snd (evaluate_with_gpt configured outcome r q answer)) \<le> 100)"
proof -
  have demo: "\<not> configured \<or> (\<forall>t. outcome \<noteq> Content (Some t)) \<Longrightarrow>
      snd (evaluate_with_gpt configured outcome r q answer) = get_demo_feedback q r"
    by (auto simp add: evaluate_with_gpt_def split: completion.splits option.splits)
  have live: "configured \<and> outcome = Content (Some t) \<Longrightarrow>
      snd (evaluate_with_gpt configured outcome r q answer) = parse_response t"
    by (simp add: evaluate_with_gpt_def)
  show ?thesis
    using demo live get_demo_feedback_score_bounds [of q r]
    by (auto simp add: parse_response_score split: option.splits)
qed

text \<open>The demo path, and a live response with the score 85.\<close>

theorem evaluate_score_witness:
  "50 \<le> score (snd (evaluate_with_gpt False (Raises []) 3 question_2 ''answer'')) \<and>
   score (snd (evaluate_with_gpt False (Raises []) 3 question_2 ''answer'')) \<le> 90 \<and>
   last_score ''SCORE: 85'' = Some 85 \<and>
   score (snd (evaluate_with_gpt True (Content (Some ''SCORE: 85'')) 3 question_2 ''answer'')) = 85 \<and>
   0 \<le> score (snd (evaluate_with_gpt True (Content (Some ''SCORE: 85'')) 3 question_2 ''answer'')) \<and>
   score (snd (evaluate_with_gpt True (Content (Some ''SCORE: 85'')) 3 question_2 ''answer'')) \<le> 100"
proof -
  have a: "last_score ''SCORE: 85'' = Some 85" by code_simp
  show ?thesis
    using a
      evaluate_score [of False "Raises []" 3 question_2 "''answer''"]
      evaluate_score [of True "Content (Some ''SCORE: 85'')" 3 question_2 "''answer''" "''SCORE: 85''"]
    by simp
qed

section \<open>The progress store\<close>

lemma has_key_update: "has_key (AList.update k v d) k' = (k' = k \<or> has_key d k')"
  by (auto simp add: has_key_def update_conv)

lemma has_key_delete: "has_key (AList.delete k d) k' = (k' \<noteq> k \<and> has_key d k')"
  by (auto simp add: has_key_def delete_conv)

lemma delete_filter: "AList.delete k d = filter (\<lambda>kv. fst kv \<noteq> k) d"
  by (induction d) auto

lemma delete_absent: "\<not> has_key d k \<Longrightarrow> AList.delete k d = d"
  by (simp add: has_key_def delete_id map_of_eq_None_iff)

lemma clear_progress_eq:
  "clear_progress qid p =
     p\<lparr>answers := AList.delete qid (answers p),
       scores := AList.delete qid (scores p),
       completed := filter (\<lambda>q. q \<noteq> qid) (completed p),
       transcripts := AList.delete qid (transcripts p),
       evaluations := AList.delete qid (evaluations p)\<rparr>"
proof -
  have "qid \<notin> set (completed p) \<Longrightarrow> filter (\<lambda>q. q \<noteq> qid) (completed p) = completed p"
    by (induction "completed p") (auto simp add: filter_id_conv)
  then show ?thesis
    by (simp add: clear_progress_def delete_absent)
qed

lemma inv_initial: "completed_have_results initial_progress"
  by (simp add: completed_have_results_def initial_progress_def)

lemma inv_answer: "completed_have_results p \<Longrightarrow> completed_have_results (record_answer qid text p)"
  by (simp add: completed_have_results_def record_answer_def)

lemma inv_evaluation:
  "completed_have_results p \<Longrightarrow> completed_have_results (record_evaluation qid sc ed p)"
  by (auto simp add: completed_have_results_def record_evaluation_def has_key_update list_all_iff)

lemma inv_restore:
  "completed_have_results p \<Longrightarrow> completed_have_results (restore_evaluation qid ui p)"
  by (auto simp add: completed_have_results_def restore_evaluation_def has_key_update list_all_iff
      split: option.splits)

lemma inv_clear: "completed_have_results p \<Longrightarrow> completed_have_results (clear_progress qid p)"
  by (auto simp add: completed_have_results_def clear_progress_eq has_key_delete list_all_iff)

lemma reachable_inv: "reachable p \<Longrightarrow> completed_have_results p"
proof (induction rule: reachable.induct)
  case start
  show ?case by (rule inv_initial)
next
  case (answer p qid a)
  then show ?case by (simp add: inv_answer)
next
  case (evaluation p qid sc ed)
  then show ?case by (simp add: inv_evaluation)
next
  case (restore p qid ui)
  then show ?case by (simp add: inv_restore)
next
  case (clear s qid)
  then show ?case by (simp add: clear_question_data_def Let_def inv_clear)
next
  case (reset s)
  show ?case by (simp add: reset_all_progress_def Let_def inv_initial)
qed

text \<open>
  Claim C6. In every progress store reachable by recording answers, recording
  evaluations, restoring cached evaluations, clearing questions and resetting, every
  question id marked completed has a score entry and an evaluation-detail entry.
\<close>

theorem completed_implies_score_and_evaluation:
  "reachable p \<Longrightarrow> q \<in> set (completed p) \<Longrightarrow>
     has_key (scores p) q \<and> has_key (evaluations p) q"
  using reachable_inv [of p] by (simp add: completed_have_results_def list_all_iff)

text \<open>An answer and then an evaluation recorded for question 2.\<close>

theorem completed_implies_score_and_evaluation_witness:
  "reachable (record_evaluation ''2'' 85
       \<lparr> overall_score = 85, word_count = 6, feedback_dict = parse_response ''SCORE: 85'' \<rparr>
       (record_answer ''2'' ''Binary search halves a sorted array.'' initial_progress)) \<and>
   ''2'' \<in> set (completed (record_evaluation ''2'' 85
       \<lparr> overall_score = 85, word_count = 6, feedback_dict = parse_response ''SCORE: 85'' \<rparr>
       (record_answer ''2'' ''Binary search halves a sorted array.'' initial_progress))) \<and>
   has_key (scores (record_evaluation ''2'' 85
       \<lparr> overall_score = 85, word_count = 6, feedback_dict = parse_response ''SCORE: 85'' \<rparr>
       (record_answer ''2'' ''Binary search halves a sorted array.'' initial_progress))) ''2'' \<and>
   has_key (evaluations (record_evaluation ''2'' 85
       \<lparr> overall_score = 85, word_count = 6, feedback_dict = parse_response ''SCORE: 85'' \<rparr>
       (record_answer ''2'' ''Binary search halves a sorted array.'' initial_progress))) ''2''"
proof -
  let ?p = "record_evaluation ''2'' 85
       \<lparr> overall_score = 85, word_count = 6, feedback_dict = parse_response ''SCORE: 85'' \<rparr>
       (record_answer ''2'' ''Binary search halves a sorted array.'' initial_progress)"
  have r: "reachable ?p"
    by (intro reachable.evaluation reachable.answer reachable.start)
  have c: "''2'' \<in> set (completed ?p)"
    by (simp add: record_evaluation_def record_answer_def initial_progress_def)
  show ?thesis
    using r c completed_implies_score_and_evaluation [OF r c] by simp
qed

lemma map_of_fold_delete:
  "map_of (fold AList.delete ks d) k = (if k \<in> set ks then None else map_of d k)"
  by (induction ks arbitrary: d) (auto simp add: delete_conv)

lemma clear_ui_state:
  "map_of (ui_state (clear_question_data qid s)) k =
     (if to_clear qid k then None else map_of (ui_state s) k)"
proof -
  have "\<not> to_clear qid k \<or> k \<in> fst ` set (ui_state s) \<or> map_of (ui_state s) k = None"
    by (auto simp add: map_of_eq_None_iff)
  then show ?thesis
    by (auto simp add: clear_question_data_def Let_def map_of_fold_delete)
qed

text \<open>
  Claim C7. For every question id \<open>qid\<close> and every session, after
  \<^verbatim>\<open>clear_question_data(qid)\<close> the store has no answer, transcript, score or evaluation
  detail for \<open>qid\<close> and no completed mark, and the session has neither its answer text nor
  its audio transcript; so \<open>qid\<close> is not among the attempted keys, and the completed and
  attempted counts of the summary count the other questions only.
\<close>

theorem clear_question_data_removes:
  "\<not> has_key (answers (progress (clear_question_data qid s))) qid \<and>
   \<not> has_key (transcripts (progress (clear_question_data qid s))) qid \<and>
   \<not> has_key (scores (progress (clear_question_data qid s))) qid \<and>
   \<not> has_key (evaluations (progress (clear_question_data qid s))) qid \<and>
   qid \<notin> set (completed (progress (clear_question_data qid s))) \<and>
   \<not> has_key (ui_state (clear_question_data qid s)) (''text_answer_'' @ qid) \<and>
   \<not> has_key (ui_state (clear_question_data qid s)) (''audio_transcript_'' @ qid) \<and>
   qid \<notin> set (map fst (answers (progress (clear_question_data qid s)))) \<and>
   fst (summary (progress (clear_question_data qid s))) =
     length (filter (\<lambda>q. q \<noteq> qid) (completed (progress s))) \<and>
   fst (snd (summary (progress (clear_question_data qid s)))) =
     length (filter (\<lambda>kv. fst kv \<noteq> qid) (answers (progress s)))"
proof -
  have p: "progress (clear_question_data qid s) = clear_progress qid (progress s)"
    by (simp add: clear_question_data_def Let_def)
  have k: "qid \<notin> set (map fst (AList.delete qid (answers (progress s))))"
    using delete_notin_dom [of qid "answers (progress s)"] by simp
  have u: "\<not> has_key (ui_state (clear_question_data qid s)) (''text_answer_'' @ qid)"
    "\<not> has_key (ui_state (clear_question_data qid s)) (''audio_transcript_'' @ qid)"
    by (simp_all add: has_key_def clear_ui_state to_clear_def startswith_def)
  show ?thesis
    using k u
    by (simp add: p clear_progress_eq has_key_delete summary_def delete_filter [symmetric])
qed

text \<open>
  Claim C8. Storing an answer text under \<open>qid\<close> leaves the scores, the evaluation
  details, the completed marks and the transcripts as they were, of \<open>qid\<close> and of every
  other question, and leaves the answer of every other question as it was.
\<close>

theorem record_answer_frame:
  "scores (record_answer qid text p) = scores p \<and>
   evaluations (record_answer qid text p) = evaluations p \<and>
   completed (record_answer qid text p) = completed p \<and>
   transcripts (record_answer qid text p) = transcripts p \<and>
   map_of (answers (record_answer qid text p)) qid = Some text \<and>
   (q \<noteq> qid \<longrightarrow> map_of (answers (record_answer qid text p)) q = map_of (answers p) q)"
  by (simp add: record_answer_def update_conv)

text \<open>A store with an evaluated question 2 and an answer to question 5; a new answer to
  question 2 is recorded.\<close>

theorem record_answer_frame_witness:
  "''5'' \<noteq> ''2'' \<and>
   map_of (answers (record_answer ''2'' ''A second try.''
       \<lparr> completed = [''2''], scores = [(''2'', 85)],
         answers = [(''2'', ''A first try.''), (''5'', ''LIFO and FIFO.'')],
         transcripts = [], evaluations = [(''2'', EvalVal \<lparr> overall_score = 85, word_count = 3,
           feedback_dict = get_demo_feedback question_2 15 \<rparr>)] \<rparr>)) ''5'' = Some ''LIFO and FIFO.'' \<and>
   scores (record_answer ''2'' ''A second try.''
       \<lparr> completed = [''2''], scores = [(''2'', 85)],
         answers = [(''2'', ''A first try.''), (''5'', ''LIFO and FIFO.'')],
         transcripts = [], evaluations = [(''2'', EvalVal \<lparr> overall_score = 85, word_count = 3,
           feedback_dict = get_demo_feedback question_2 15 \<rparr>)] \<rparr>) = [(''2'', 85)] \<and>
   completed (record_answer ''2'' ''A second try.''
       \<lparr> completed = [''2''], scores = [(''2'', 85)],
         answers = [(''2'', ''A first try.''), (''5'', ''LIFO and FIFO.'')],
         transcripts = [], evaluations = [(''2'', EvalVal \<lparr> overall_score = 85, word_count = 3,
           feedback_dict = get_demo_feedback question_2 15 \<rparr>)] \<rparr>) = [''2'']"
  using record_answer_frame [of "''2''" "''A second try.''"
      "\<lparr> completed = [''2''], scores = [(''2'', 85)],
         answers = [(''2'', ''A first try.''), (''5'', ''LIFO and FIFO.'')],
         transcripts = [], evaluations = [(''2'', EvalVal \<lparr> overall_score = 85, word_count = 3,
           feedback_dict = get_demo_feedback question_2 15 \<rparr>)] \<rparr>" "''5''"]
  by simp

section \<open>The practice page: resets and blank answers\<close>

lemma str_py_question_2: "str_py (id_q question_2) = ''2''"
  by code_simp

lemma map_of_init_key:
  "map_of (init_key k v d) k' = (if k' = k \<and> map_of d k = None then Some v else map_of d k')"
  by (simp add: init_key_def has_key_def update_conv)

lemma has_key_init_key: "has_key (init_key k v d) k' = (k' = k \<or> has_key d k')"
  by (auto simp add: has_key_def map_of_init_key)

lemma not_to_clear_evaluation: "\<not> to_clear qid (''evaluation_'' @ qid')"
  by (simp add: to_clear_def startswith_def)

lemma audio_recorder_component_passes:
  assumes "ev = NoEvent \<or> ev = EvaluateAnswer \<or> ev = ResetQuestion"
  shows "audio_recorder_component n ev s =
     Finished (s\<lparr>ui_state := init_key (''record_count_'' @ str_py n) (IntVal 0)
                (init_key (''recording_active_'' @ str_py n) (BoolVal False) (ui_state s))\<rparr>)"
  using assms
  by (auto simp add: audio_recorder_component_def Let_def map_of_init_key has_key_def
      split: option.splits)

lemma audio_section_passes:
  assumes ev: "ev = NoEvent \<or> ev = EvaluateAnswer \<or> ev = ResetQuestion"
    and la: "has_key (ui_state s) (''last_audio_'' @ str_py (id_q q))"
    and tr: "has_key (ui_state s) (''audio_transcript_'' @ str_py (id_q q))"
  shows "\<exists>s'. audio_section q ev t_outcome r s = Finished s' \<and>
           progress s' = progress s \<and> api_configured s' = api_configured s \<and>
           (\<forall>k. k \<noteq> ''recording_active_'' @ str_py (id_q q) \<and>
                k \<noteq> ''record_count_'' @ str_py (id_q q) \<longrightarrow>
                map_of (ui_state s') k = map_of (ui_state s) k)"
proof (cases "api_configured s")
  case False
  then show ?thesis by (simp add: audio_section_def Let_def)
next
  case True
  let ?qid = "str_py (id_q q)"
  let ?d = "init_key (''record_count_'' @ ?qid) (IntVal 0)
              (init_key (''recording_active_'' @ ?qid) (BoolVal False) (ui_state s))"
  have arc: "audio_recorder_component (id_q q) ev s = Finished (s\<lparr>ui_state := ?d\<rparr>)"
    using ev by (rule audio_recorder_component_passes)
  have same: "\<And>k. k \<noteq> ''recording_active_'' @ ?qid \<and> k \<noteq> ''record_count_'' @ ?qid \<Longrightarrow>
               map_of ?d k = map_of (ui_state s) k"
    by (simp add: map_of_init_key)
  have la': "map_of ?d (''last_audio_'' @ ?qid) = map_of (ui_state s) (''last_audio_'' @ ?qid)"
    by (simp add: map_of_init_key)
  have tr': "has_key ?d (''audio_transcript_'' @ ?qid)"
    using tr by (simp add: has_key_init_key)
  obtain v where v: "map_of (ui_state s) (''last_audio_'' @ ?qid) = Some v"
    using la by (auto simp add: has_key_def)
  have "audio_section q ev t_outcome r s = Finished (s\<lparr>ui_state := ?d\<rparr>)"
    using True ev tr' la' v
    by (cases v) (auto simp add: audio_section_def Let_def arc)
  then show ?thesis using same by simp
qed

lemma evaluation_body_blank:
  assumes "strip fa = []" and "ev \<noteq> ResetQuestion"
  shows "evaluation_body q ev c_outcome r ex fa s =
     Finished (s\<lparr>progress :=
       restore_evaluation (str_py (id_q q)) (ui_state s)
         (if fa \<noteq> [] \<and> fa \<noteq> ex then record_answer (str_py (id_q q)) fa (progress s)
          else progress s)\<rparr>)"
  using assms by (simp add: evaluation_body_def Let_def)

lemma show_practice_blank:
  assumes fa: "final_answer_of q s = StrVal fa" and blank: "strip fa = []"
    and ev: "ev = NoEvent \<or> ev = EvaluateAnswer"
  shows "\<exists>s'. show_practice q ev t_outcome c_outcome r s = Finished s' \<and>
     api_configured s' = api_configured s \<and>
     progress s' =
       restore_evaluation (str_py (id_q q)) (ui_state s)
         (if fa \<noteq> [] \<and> fa \<noteq> get_or (answers (progress s)) (str_py (id_q q)) []
          then record_answer (str_py (id_q q)) fa (progress s) else progress s) \<and>
     map_of (ui_state s') (''evaluation_'' @ str_py (id_q q)) =
       map_of (ui_state s) (''evaluation_'' @ str_py (id_q q))"
proof -
  let ?qid = "str_py (id_q q)"
  let ?ex = "get_or (answers (progress s)) ?qid []"
  let ?d = "init_key (''last_audio_'' @ ?qid) NoneVal
              (init_key (''text_answer_'' @ ?qid) (StrVal ?ex)
                (init_key (''audio_transcript_'' @ ?qid) (StrVal []) (ui_state s)))"
  let ?s0 = "s\<lparr>ui_state := ?d\<rparr>"
  have ev': "ev = NoEvent \<or> ev = EvaluateAnswer \<or> ev = ResetQuestion" using ev by blast
  have "has_key (ui_state ?s0) (''last_audio_'' @ ?qid)"
    "has_key (ui_state ?s0) (''audio_transcript_'' @ ?qid)"
    by (simp_all add: has_key_init_key)
  from audio_section_passes [OF ev' this, of t_outcome r]
  obtain s1 where s1: "audio_section q ev t_outcome r ?s0 = Finished s1"
    and p1: "progress s1 = progress s" and a1: "api_configured s1 = api_configured s"
    and u1: "\<And>k. k \<noteq> ''recording_active_'' @ ?qid \<and> k \<noteq> ''record_count_'' @ ?qid \<Longrightarrow>
                 map_of (ui_state s1) k = map_of ?d k"
    by auto
  have ta: "map_of (ui_state s1) (''text_answer_'' @ ?qid) =
            Some (get_or (ui_state s) (''text_answer_'' @ ?qid) (StrVal ?ex))"
    by (simp add: u1 map_of_init_key get_or_def split: option.splits)
  have ek: "map_of (ui_state s1) (''evaluation_'' @ ?qid) = map_of (ui_state s) (''evaluation_'' @ ?qid)"
    by (simp add: u1 map_of_init_key)
  have fa1: "get_or (ui_state s1) (''text_answer_'' @ ?qid) (StrVal []) = StrVal fa"
    using fa ta by (simp add: final_answer_of_def get_or_def)
  have re: "restore_evaluation ?qid (ui_state s1) = restore_evaluation ?qid (ui_state s)"
  proof (rule ext)
    fix p
    show "restore_evaluation ?qid (ui_state s1) p = restore_evaluation ?qid (ui_state s) p"
      using ek by (simp add: restore_evaluation_def)
  qed
  have nr: "ev \<noteq> ResetQuestion" using ev by auto
  have "show_practice q ev t_outcome c_outcome r s =
          evaluation_body q ev c_outcome r ?ex fa s1"
    using s1 fa1 by (simp add: show_practice_def Let_def evaluation_section_def)
  then show ?thesis
    using ek by (simp add: evaluation_body_blank [OF blank nr] p1 a1 re)
qed

text \<open>
  Claim C10. For every question id, \<^verbatim>\<open>clear_question_data\<close> deletes from the session state
  exactly the keys that start with one of its ten prefixes; \<^verbatim>\<open>evaluation_{qid}\<close> starts with
  none of them and keeps its value; and the next run of the practice page for that
  question (no button pressed) ends normally with the cached evaluation copied into
  \<^verbatim>\<open>progress['evaluations'][qid]\<close>, while the question has no score and no completed mark.
\<close>

theorem cached_evaluation_restored_after_clear:
  "map_of (ui_state (clear_question_data qid s)) k =
     (if to_clear qid k then None else map_of (ui_state s) k) \<and>
   \<not> to_clear qid (''evaluation_'' @ qid) \<and>
   map_of (ui_state (clear_question_data qid s)) (''evaluation_'' @ qid) =
     map_of (ui_state s) (''evaluation_'' @ qid) \<and>
   (qid = str_py (id_q q) \<and> map_of (ui_state s) (''evaluation_'' @ qid) = Some cached \<longrightarrow>
      (\<exists>s'. show_practice q NoEvent t_outcome c_outcome r (clear_question_data qid s) = Finished s' \<and>
            map_of (evaluations (progress s')) qid = Some cached \<and>
            \<not> has_key (scores (progress s')) qid \<and>
            qid \<notin> set (completed (progress s'))))"
proof -
  have keep: "map_of (ui_state (clear_question_data qid s)) (''evaluation_'' @ qid) =
     map_of (ui_state s) (''evaluation_'' @ qid)"
    using not_to_clear_evaluation [of qid qid] by (simp add: clear_ui_state)
  have render: "\<exists>s'. show_practice q NoEvent t_outcome c_outcome r (clear_question_data qid s) = Finished s' \<and>
            map_of (evaluations (progress s')) qid = Some cached \<and>
            \<not> has_key (scores (progress s')) qid \<and>
            qid \<notin> set (completed (progress s'))"
    if q: "qid = str_py (id_q q)" and c: "map_of (ui_state s) (''evaluation_'' @ qid) = Some cached"
  proof -
    let ?s1 = "clear_question_data qid s"
    have p: "progress ?s1 = clear_progress qid (progress s)"
      by (simp add: clear_question_data_def Let_def)
    have ex: "get_or (answers (progress ?s1)) qid [] = []"
      by (simp add: p clear_progress_eq get_or_def delete_conv)
    have "map_of (ui_state ?s1) (''text_answer_'' @ qid) = None"
      by (simp add: clear_ui_state to_clear_def startswith_def)
    then have fa: "final_answer_of q ?s1 = StrVal []"
      using ex q by (simp add: final_answer_of_def get_or_def)
    have blank: "strip [] = []" by (simp add: strip_def)
    from show_practice_blank [OF fa blank, of NoEvent t_outcome c_outcome r]
    obtain s' where s': "show_practice q NoEvent t_outcome c_outcome r ?s1 = Finished s'"
      and ps': "progress s' = restore_evaluation qid (ui_state ?s1) (progress ?s1)"
      using q by auto
    have "\<not> has_key (evaluations (progress ?s1)) qid"
      by (simp add: p clear_progress_eq has_key_delete)
    then have "progress s' =
        (progress ?s1)\<lparr>evaluations := AList.update qid cached (evaluations (progress ?s1))\<rparr>"
      using keep c by (simp add: ps' restore_evaluation_def)
    then have "map_of (evaluations (progress s')) qid = Some cached \<and>
            \<not> has_key (scores (progress s')) qid \<and>
            qid \<notin> set (completed (progress s'))"
      by (simp add: p clear_progress_eq has_key_delete update_conv)
    then show ?thesis using s' by blast
  qed
  have all_keys: "map_of (ui_state (clear_question_data qid s)) k =
     (if to_clear qid k then None else map_of (ui_state s) k)"
    by (rule clear_ui_state)
  have not_listed: "\<not> to_clear qid (''evaluation_'' @ qid)"
    by (rule not_to_clear_evaluation)
  show ?thesis
    using all_keys not_listed keep render by blast
qed

text \<open>Question 2 evaluated in demo mode, then reset.\<close>

theorem cached_evaluation_restored_after_clear_witness:
  "''2'' = str_py (id_q question_2) \<and>
   map_of (ui_state
     \<lparr> api_configured = False,
       progress = \<lparr> completed = [''2''], scores = [(''2'', 75)],
                    answers = [(''2'', ''It halves a sorted array.'')], transcripts = [],
                    evaluations = [(''2'', EvalVal \<lparr> overall_score = 75, word_count = 5,
                       feedback_dict = get_demo_feedback question_2 5 \<rparr>)] \<rparr>,
       ui_state = [(''text_answer_2'', StrVal ''It halves a sorted array.''),
                   (''evaluation_2'', EvalVal \<lparr> overall_score = 75, word_count = 5,
                       feedback_dict = get_demo_feedback question_2 5 \<rparr>)] \<rparr>)
     (''evaluation_'' @ ''2'') =
     Some (EvalVal \<lparr> overall_score = 75, word_count = 5,
                     feedback_dict = get_demo_feedback question_2 5 \<rparr>) \<and>
   (\<exists>s'. show_practice question_2 NoEvent (TranscriptionText []) (Content None) 0
       (clear_question_data ''2''
         \<lparr> api_configured = False,
           progress = \<lparr> completed = [''2''], scores = [(''2'', 75)],
                        answers = [(''2'', ''It halves a sorted array.'')], transcripts = [],
                        evaluations = [(''2'', EvalVal \<lparr> overall_score = 75, word_count = 5,
                           feedback_dict = get_demo_feedback question_2 5 \<rparr>)] \<rparr>,
           ui_state = [(''text_answer_2'', StrVal ''It halves a sorted array.''),
                       (''evaluation_2'', EvalVal \<lparr> overall_score = 75, word_count = 5,
                           feedback_dict = get_demo_feedback question_2 5 \<rparr>)] \<rparr>) =
       Finished s' \<and>
       map_of (evaluations (progress s')) ''2'' =
         Some (EvalVal \<lparr> overall_score = 75, word_count = 5,
                         feedback_dict = get_demo_feedback question_2 5 \<rparr>) \<and>
       \<not> has_key (scores (progress s')) ''2'' \<and>
       ''2'' \<notin> set (completed (progress s')))"
proof -
  let ?e = "EvalVal \<lparr> overall_score = 75, word_count = 5,
                     feedback_dict = get_demo_feedback question_2 5 \<rparr>"
  let ?s = "\<lparr> api_configured = False,
       progress = \<lparr> completed = [''2''], scores = [(''2'', 75)],
                    answers = [(''2'', ''It halves a sorted array.'')], transcripts = [],
                    evaluations = [(''2'', ?e)] \<rparr>,
       ui_state = [(''text_answer_2'', StrVal ''It halves a sorted array.''),
                   (''evaluation_2'', ?e)] \<rparr>"
  have a: "''2'' = str_py (id_q question_2)"
    by (simp add: str_py_question_2)
  have b: "map_of (ui_state ?s) (''evaluation_'' @ ''2'') = Some ?e"
    by simp
  have "a \<and> b \<longrightarrow> c \<Longrightarrow> a \<Longrightarrow> b \<Longrightarrow> c" for a b c by blast
  from cached_evaluation_restored_after_clear
         [of "''2''" ?s "''2''" question_2 ?e "TranscriptionText []" "Content None" 0]
  have "\<exists>s'. show_practice question_2 NoEvent (TranscriptionText []) (Content None) 0
            (clear_question_data ''2'' ?s) = Finished s' \<and>
          map_of (evaluations (progress s')) ''2'' = Some ?e \<and>
          \<not> has_key (scores (progress s')) ''2'' \<and>
          ''2'' \<notin> set (completed (progress s'))"
    using a b by blast
  then show ?thesis using a b by blast
qed

text \<open>
  Claim C5 as stated fails: \<^verbatim>\<open>evaluate_with_gpt\<close> never looks at the answer, and returns a
  score for a blank one on the live path and on the demo path alike.
\<close>

theorem evaluate_blank_answer_counterexample:
  "strip ''   '' = [] \<and>
   evaluate_with_gpt False (Content None) 0 question_2 ''   '' =
     ([], get_demo_feedback question_2 0) \<and>
   score (get_demo_feedback question_2 0) = 70 \<and>
   score (snd (evaluate_with_gpt True (Content (Some ''SCORE: 90'')) 0 question_2 ''   '')) = 90"
proof -
  have "strip ''   '' = []" by code_simp
  moreover have "last_score ''SCORE: 90'' = Some 90" by code_simp
  moreover have "score (get_demo_feedback question_2 0) = 70"
    by (simp add: get_demo_feedback_score question_2_def randint_def)
  ultimately show ?thesis
    by (simp add: evaluate_with_gpt_def parse_response_score)
qed

text \<open>
  Claim C5, amended. The blank answer is turned away by the practice page, not by the
  evaluation function: when the answer that a run of \<^verbatim>\<open>show_practice\<close> reads is empty or
  only whitespace, the run draws the evaluation button disabled, so even with an
  evaluation requested it ends normally without calling the evaluation: the scores, the
  completed marks and the cached evaluation of the session are as before, and the
  evaluation details change at most by the restoring of an evaluation cached earlier.
\<close>

theorem blank_answer_not_evaluated:
  assumes "final_answer_of q s = StrVal a" and "strip a = []"
  shows "\<exists>s'. show_practice q EvaluateAnswer t_outcome c_outcome r s = Finished s' \<and>
     scores (progress s') = scores (progress s) \<and>
     completed (progress s') = completed (progress s) \<and>
     evaluations (progress s') =
       evaluations (restore_evaluation (str_py (id_q q)) (ui_state s) (progress s)) \<and>
     map_of (ui_state s') (''evaluation_'' @ str_py (id_q q)) =
       map_of (ui_state s) (''evaluation_'' @ str_py (id_q q))"
proof -
  from show_practice_blank [OF assms, of EvaluateAnswer t_outcome c_outcome r]
  obtain s' where s': "show_practice q EvaluateAnswer t_outcome c_outcome r s = Finished s'"
    and ps': "progress s' =
       restore_evaluation (str_py (id_q q)) (ui_state s)
         (if a \<noteq> [] \<and> a \<noteq> get_or (answers (progress s)) (str_py (id_q q)) []
          then record_answer (str_py (id_q q)) a (progress s) else progress s)"
    and ek: "map_of (ui_state s') (''evaluation_'' @ str_py (id_q q)) =
       map_of (ui_state s) (''evaluation_'' @ str_py (id_q q))"
    by auto
  have "scores (progress s') = scores (progress s) \<and>
     completed (progress s') = completed (progress s) \<and>
     evaluations (progress s') =
       evaluations (restore_evaluation (str_py (id_q q)) (ui_state s) (progress s))"
    by (simp add: ps' restore_evaluation_def record_answer_def split: option.splits)
  then show ?thesis using s' ek by blast
qed

text \<open>A session whose text answer for question 2 is three spaces.\<close>

theorem blank_answer_not_evaluated_witness:
  "final_answer_of question_2
     \<lparr> api_configured = True, progress = initial_progress,
       ui_state = [(''text_answer_2'', StrVal ''   '')] \<rparr> = StrVal ''   '' \<and>
   strip ''   '' = [] \<and>
   (\<exists>s'. show_practice question_2 EvaluateAnswer (TranscriptionText [])
            (Content (Some ''SCORE: 90'')) 0
            \<lparr> api_configured = True, progress = initial_progress,
              ui_state = [(''text_answer_2'', StrVal ''   '')] \<rparr> = Finished s' \<and>
          scores (progress s') = [] \<and> completed (progress s') = [])"
proof -
  let ?s = "\<lparr> api_configured = True, progress = initial_progress,
              ui_state = [(''text_answer_2'', StrVal ''   '')] \<rparr>"
  have a: "final_answer_of question_2 ?s = StrVal ''   ''"
    by (simp add: final_answer_of_def str_py_question_2 get_or_def)
  have b: "strip ''   '' = []" by code_simp
  from blank_answer_not_evaluated [OF a b, of "TranscriptionText []" "Content (Some ''SCORE: 90'')" 0]
  have "\<exists>s'. show_practice question_2 EvaluateAnswer (TranscriptionText [])
            (Content (Some ''SCORE: 90'')) 0 ?s = Finished s' \<and>
          scores (progress s') = [] \<and> completed (progress s') = []"
    by (auto simp add: initial_progress_def)
  then show ?thesis using a b by blast
qed

section \<open>Transcription failures\<close>

lemma choice_member: "choice xs r = Some t \<Longrightarrow> t \<in> set xs"
  by (auto simp add: choice_def split: if_splits)

lemma choice_None: "(choice xs r = None) = (xs = [])"
  by (simp add: choice_def)

lemma demo_transcript_in_find:
  assumes "find (\<lambda>q. id_q q = n) qs = Some q"
  shows "(demo_transcripts q \<noteq> [] \<longrightarrow> demo_transcript_in qs (Some n) r \<in> set (demo_transcripts q)) \<and>
         (demo_transcripts q = [] \<and> map_of category_sentences (category q) = Some t \<longrightarrow>
            demo_transcript_in qs (Some n) r = t)"
  using assms
proof (induction qs)
  case Nil
  then show ?case by simp
next
  case (Cons x qs)
  show ?case
  proof (cases "id_q x = n")
    case True
    then have qx: "q = x" using Cons.prems by simp
    show ?thesis
    proof (cases "choice (demo_transcripts x) r")
      case None
      then have "demo_transcripts x = []" by (simp add: choice_None)
      then show ?thesis using True qx None
        by (auto simp add: category_sentences_def split: if_splits)
    next
      case (Some u)
      then have "u \<in> set (demo_transcripts x)" by (rule choice_member)
      then show ?thesis using True qx Some by auto
    qed
  next
    case False
    then show ?thesis using Cons by simp
  qed
qed

text \<open>
  Claim C4. For every audio input and every question id \<open>n\<close> of the bank (the id of an
  entry \<open>q\<close>; the ids are not zero), when the live transcription raises an exception with
  message \<open>e\<close>, or the audio has no bytes, \<^verbatim>\<open>transcribe_audio\<close> returns: it reports the
  diagnostic \<^verbatim>\<open>Transcription error:\<close> followed by the first 100 characters of the message,
  and its result is one of the demo transcripts of \<open>q\<close>, or, when \<open>q\<close> has none, the generic
  sentence of the category of \<open>q\<close>. The function is total on the model: no exception
  leaves it.
\<close>

theorem transcribe_audio_absorbs_failure:
  assumes "find (\<lambda>q. id_q q = n) qs = Some q" and "n \<noteq> 0"
  shows "\<exists>t. transcribe_audio_in qs True (TranscriptionRaises e) r audio (Some n) =
           ([''Transcription error: '' @
               take 100 (case get_audio_bytes audio of None \<Rightarrow> ''No audio data found''
                         | Some b \<Rightarrow> e)], t) \<and>
           (demo_transcripts q \<noteq> [] \<longrightarrow> t \<in> set (demo_transcripts q)) \<and>
           (demo_transcripts q = [] \<longrightarrow>
              (\<forall>u. map_of category_sentences (category q) = Some u \<longrightarrow> t = u))"
proof -
  have "id_given (Some n)" using assms(2) by (simp add: id_given_def)
  then have "transcribe_audio_in qs True (TranscriptionRaises e) r audio (Some n) =
           ([''Transcription error: '' @
               take 100 (case get_audio_bytes audio of None \<Rightarrow> ''No audio data found''
                         | Some b \<Rightarrow> e)], demo_transcript_in qs (Some n) r)"
    by (simp add: transcribe_audio_in_def Let_def split: option.splits)
  then show ?thesis
    using demo_transcript_in_find [OF assms(1), of r] by auto
qed

text \<open>Question 2 of the bank, a connection error.\<close>

theorem transcribe_audio_absorbs_failure_witness:
  "find (\<lambda>q. id_q q = 2) QUESTIONS = Some question_2 \<and> (2 :: int) \<noteq> 0 \<and>
   demo_transcripts question_2 \<noteq> [] \<and>
   (\<exists>t. transcribe_audio True (TranscriptionRaises ''Connection error.'') 1 (AudioVal ''RIFF'')
           (Some 2) = ([''Transcription error: Connection error.''], t) \<and>
        t \<in> set (demo_transcripts question_2))"
proof -
  have a: "find (\<lambda>q. id_q q = 2) QUESTIONS = Some question_2"
    by (simp add: QUESTIONS_def question_1_def question_2_def)
  have b: "(2 :: int) \<noteq> 0" by simp
  have c: "demo_transcripts question_2 \<noteq> []" by (simp add: question_2_def)
  from transcribe_audio_absorbs_failure [OF a b, of "''Connection error.''" 1 "AudioVal ''RIFF''"]
  have "\<exists>t. transcribe_audio True (TranscriptionRaises ''Connection error.'') 1 (AudioVal ''RIFF'')
           (Some 2) = ([''Transcription error: Connection error.''], t) \<and>
        t \<in> set (demo_transcripts question_2)"
    using c by (simp add: transcribe_audio_def)
  then show ?thesis using a b c by blast
qed

text \<open>Without a question id (\<^verbatim>\<open>None\<close> or 0) the handler returns its fixed message.\<close>

lemma transcribe_audio_without_id:
  "\<not> id_given question_id \<Longrightarrow>
   transcribe_audio_in qs True (TranscriptionRaises e) r (AudioVal a) question_id =
     ([''Transcription error: '' @ take 100 e], ''Error in transcription. Please try again.'')"
  by (simp add: transcribe_audio_in_def Let_def)

section \<open>The report: what it depends on\<close>

text \<open>
  Claim C9 as stated fails: the document carries the clock reading (and the mode of the
  session), so two invocations on the same progress store, seven seconds apart, return
  two different documents.
\<close>

theorem report_not_identical_counterexample:
  "\<not> isl (generate_pdf ''2026-01-05 10:00:00''
       \<lparr> api_configured = False,
         progress = \<lparr> completed = [], scores = [],
                      answers = [(''2'', ''It halves a sorted array.'')],
                      transcripts = [], evaluations = [] \<rparr>,
         ui_state = [] \<rparr>) \<and>
   generate_pdf ''2026-01-05 10:00:00''
       \<lparr> api_configured = False,
         progress = \<lparr> completed = [], scores = [],
                      answers = [(''2'', ''It halves a sorted array.'')],
                      transcripts = [], evaluations = [] \<rparr>,
         ui_state = [] \<rparr> \<noteq>
   generate_pdf ''2026-01-05 10:00:07''
       \<lparr> api_configured = False,
         progress = \<lparr> completed = [], scores = [],
                      answers = [(''2'', ''It halves a sorted array.'')],
                      transcripts = [], evaluations = [] \<rparr>,
         ui_state = [] \<rparr>"
proof -
  let ?p = "\<lparr> completed = [], scores = [],
              answers = [(''2'', ''It halves a sorted array.'')],
              transcripts = [], evaluations = [] \<rparr>"
  have i: "int_py ''2'' = Some 2" by code_simp
  have x: "index_py QUESTIONS 1 = Inr question_2"
    by (simp add: index_py_def QUESTIONS_def)
  have s: "sorted_by_int [''2''] = Inr [''2'']"
    by (simp add: sorted_by_int_def i)
  have b: "\<not> isl (question_blocks QUESTIONS ?p [''2''])"
    by (simp add: question_block_def i x)
  show ?thesis
    using b by (auto simp add: generate_pdf_def generate_pdf_in_def Let_def s split: sum.splits)
qed

text \<open>
  Claim C9, amended. For every question bank and any two sessions with the same progress
  store, two invocations of the report builder agree in everything but the cell of the
  \<^verbatim>\<open>Generated:\<close> time stamp (cell 1) and the cell of the mode (cell 2): both raise the same
  error, or both return documents of the same cells once these two cells are overwritten
  alike, that is the same summary counts, the same average, highest and lowest score and
  the same block for every attempted question. With the same clock reading and the same
  mode the documents are identical.
\<close>

theorem report_determined_by_progress:
  assumes "progress s1 = progress s2"
  shows "map_sum id (\<lambda>d. d[1 := c, 2 := c']) (generate_pdf_in qs now1 s1) =
         map_sum id (\<lambda>d. d[1 := c, 2 := c']) (generate_pdf_in qs now2 s2) \<and>
         (now1 = now2 \<and> api_configured s1 = api_configured s2 \<longrightarrow>
            generate_pdf_in qs now1 s1 = generate_pdf_in qs now2 s2) \<and>
         (\<forall>d. generate_pdf_in qs now1 s1 = Inr d \<longrightarrow>
            d ! 1 = Cell (''Generated: '' @ now1) \<and>
            d ! 2 = Cell (''Mode: '' @ (if \<not> api_configured s1 then ''Demo Mode'' else ''Real AI Mode'')))"
  using assms
  by (auto simp add: generate_pdf_in_def Let_def numeral_2_eq_2 split: sum.splits)

text \<open>The same store in demo mode and in live mode, seven seconds apart.\<close>

theorem report_determined_by_progress_witness:
  "progress \<lparr> api_configured = False,
         progress = \<lparr> completed = [], scores = [],
                      answers = [(''2'', ''It halves a sorted array.'')],
                      transcripts = [], evaluations = [] \<rparr>,
         ui_state = [] \<rparr> =
   progress \<lparr> api_configured = True,
         progress = \<lparr> completed = [], scores = [],
                      answers = [(''2'', ''It halves a sorted array.'')],
                      transcripts = [], evaluations = [] \<rparr>,
         ui_state = [] \<rparr> \<and>
   map_sum id (\<lambda>d. d[1 := Cell [], 2 := Cell []])
     (generate_pdf_in QUESTIONS ''2026-01-05 10:00:00''
       \<lparr> api_configured = False,
         progress = \<lparr> completed = [], scores = [],
                      answers = [(''2'', ''It halves a sorted array.'')],
                      transcripts = [], evaluations = [] \<rparr>,
         ui_state = [] \<rparr>) =
   map_sum id (\<lambda>d. d[1 := Cell [], 2 := Cell []])
     (generate_pdf_in QUESTIONS ''2026-01-05 10:00:07''
       \<lparr> api_configured = True,
         progress = \<lparr> completed = [], scores = [],
                      answers = [(''2'', ''It halves a sorted array.'')],
                      transcripts = [], evaluations = [] \<rparr>,
         ui_state = [] \<rparr>)"
proof -
  let ?p = "\<lparr> completed = [], scores = [],
              answers = [(''2'', ''It halves a sorted array.'')],
              transcripts = [], evaluations = [] \<rparr>"
  let ?s1 = "\<lparr> api_configured = False, progress = ?p, ui_state = [] \<rparr>"
  let ?s2 = "\<lparr> api_configured = True, progress = ?p, ui_state = [] \<rparr>"
  have a: "progress ?s1 = progress ?s2" by simp
  from report_determined_by_progress [OF a, of "Cell []" "Cell []" QUESTIONS
      "''2026-01-05 10:00:00''" "''2026-01-05 10:00:07''"]
  show ?thesis using a by blast
qed

end
